theory Spec2Isabelle
  imports Main "HOL-Library.Word" "HOL-Library.Multiset"
begin

section \<open>JavaScript values\<close>

text \<open>
  The client works on whatever JSON the school server returns. A JavaScript string is a
  sequence of 16-bit code units and \<open>length\<close>, \<open>substring\<close> and \<open>trim\<close> count code
  units, so a string is a list of 16-bit words. \<open>lit\<close> embeds an ASCII literal.
\<close>

type_synonym jchar = "16 word"
type_synonym jstring = "jchar list"

definition lit :: "string \<Rightarrow> jstring" where
  "lit s = map (\<lambda>c. of_nat (of_char c)) s"

text \<open>
  A value read from the payload: what \<open>JSON.parse\<close> produces, plus \<open>undefined\<close> for a
  property that is not there. Numbers are the integers a double holds exactly (up to
  \<open>2^53\<close> in magnitude), which \<open>String\<close> prints as their decimal digits. Objects are plain data: an
  association list from property names to values, each name once; the names the client
  reads are ASCII. Objects do not carry the keys \<open>toString\<close> and \<open>valueOf\<close>.
\<close>

datatype json =
    JUndefined
  | JNull
  | JBool bool
  | JNum int
  | JStr jstring
  | JArr "json list"
  | JObj "(string \<times> json) list"

text \<open>What the client can throw on a payload: a \<open>TypeError\<close> from a method call on
  a value that has no such method, a \<open>URIError\<close> from \<open>encodeURIComponent\<close>.\<close>

datatype error = TypeError | URIError

text \<open>\<open>v?.k\<close>: the property \<open>k\<close> of \<open>v\<close>, \<open>undefined\<close> when \<open>v\<close> has none.\<close>

fun getField :: "json \<Rightarrow> string \<Rightarrow> json" where
  "getField (JObj kvs) k = (case map_of kvs k of Some v \<Rightarrow> v | None \<Rightarrow> JUndefined)"
| "getField _ k = JUndefined"

definition nullish :: "json \<Rightarrow> bool" where
  "nullish v = (v = JUndefined \<or> v = JNull)"

text \<open>\<open>a ?? b ?? ... ?? z\<close>: the first operand that is neither null nor undefined, the last
  operand when all before it are.\<close>

fun coalesce :: "json list \<Rightarrow> json" where
  "coalesce [] = JUndefined"
| "coalesce [v] = v"
| "coalesce (v # w # vs) = (if nullish v then coalesce (w # vs) else v)"

fun truthy :: "json \<Rightarrow> bool" where
  "truthy JUndefined = False"
| "truthy JNull = False"
| "truthy (JBool b) = b"
| "truthy (JNum n) = (n \<noteq> 0)"
| "truthy (JStr s) = (s \<noteq> [])"
| "truthy (JArr xs) = True"
| "truthy (JObj kvs) = True"

fun isString :: "json \<Rightarrow> bool" where
  "isString (JStr s) = True"
| "isString _ = False"

subsection \<open>Strings\<close>

text \<open>White space and line terminators, as \<open>trim\<close> and the regular expression class
  \<open>\s\<close> have them.\<close>

definition isWhiteSpace :: "jchar \<Rightarrow> bool" where
  "isWhiteSpace c =
     (let n = unat c
      in n \<in> set [9, 10, 11, 12, 13, 32, 160, 5760, 8232, 8233, 8239, 8287, 12288, 65279]
         \<or> (8192 \<le> n \<and> n \<le> 8202))"

definition jsTrim :: "jstring \<Rightarrow> jstring" where
  "jsTrim s = rev (dropWhile isWhiteSpace (rev (dropWhile isWhiteSpace s)))"

fun join :: "jstring \<Rightarrow> jstring list \<Rightarrow> jstring" where
  "join sep [] = []"
| "join sep [x] = x"
| "join sep (x # y # ys) = x @ sep @ join sep (y # ys)"

definition digitChar :: "nat \<Rightarrow> jchar" where
  "digitChar d = of_nat (48 + d)"

fun showNat :: "nat \<Rightarrow> jstring" where
  "showNat n = (if n < 10 then [digitChar n] else showNat (n div 10) @ [digitChar (n mod 10)])"

definition showInt :: "int \<Rightarrow> jstring" where
  "showInt i = (if i < 0 then lit ''-'' @ showNat (nat (- i)) else showNat (nat i))"

text \<open>\<open>String(v)\<close>, also what a template literal does to an interpolated value.\<close>

fun toStr :: "json \<Rightarrow> jstring" where
  "toStr JUndefined = lit ''undefined''"
| "toStr JNull = lit ''null''"
| "toStr (JBool b) = (if b then lit ''true'' else lit ''false'')"
| "toStr (JNum n) = showInt n"
| "toStr (JStr s) = s"
| "toStr (JArr xs) = join (lit '','') (map (\<lambda>x. if x = JUndefined \<or> x = JNull then [] else toStr x) xs)"
| "toStr (JObj kvs) = lit ''[object Object]''"

subsection \<open>Dates\<close>

text \<open>
  A valid \<open>Date\<close> is its time value, the milliseconds since the epoch; \<open>None\<close> stands for
  an invalid date (time value \<open>NaN\<close>) or, where the code returns it, for \<open>null\<close>.
  How a string is parsed is the engine's business beyond the ISO format, so the parser
  is a parameter \<open>parse\<close> of everything that builds a date from the payload.
\<close>

type_synonym instant = int
type_synonym parser = "jstring \<Rightarrow> instant option"

definition timeClip :: "int \<Rightarrow> instant option" where
  "timeClip n = (if \<bar>n\<bar> \<le> 8640000000000000 then Some n else None)"

text \<open>\<open>new Date(v)\<close> followed by the \<open>Number.isNaN(d.getTime())\<close> test.\<close>

definition newDate :: "parser \<Rightarrow> json \<Rightarrow> instant option" where
  "newDate parse v =
     (case v of
        JStr s \<Rightarrow> parse s
      | JNum n \<Rightarrow> timeClip n
      | JBool b \<Rightarrow> Some (if b then 1 else 0)
      | JNull \<Rightarrow> Some 0
      | JUndefined \<Rightarrow> None
      | _ \<Rightarrow> parse (toStr v))"

text \<open>
  The date-only form \<open>YYYY-MM-DD\<close> of the ECMAScript date-time string format, which
  every engine reads as midnight UTC of that day. \<open>isoDateOnly\<close> is a parser that knows
  this form and nothing else; it serves where a concrete parser is needed.
\<close>

definition digitVal :: "jchar \<Rightarrow> int option" where
  "digitVal c = (let n = unat c in if 48 \<le> n \<and> n \<le> 57 then Some (int n - 48) else None)"

fun number :: "jstring \<Rightarrow> int option" where
  "number [] = None"
| "number cs =
     foldl (\<lambda>acc c. case (acc, digitVal c) of (Some a, Some d) \<Rightarrow> Some (10 * a + d) | _ \<Rightarrow> None)
       (Some 0) cs"

definition isLeapYear :: "int \<Rightarrow> bool" where
  "isLeapYear y = (if y mod 100 = 0 then y mod 400 = 0 else y mod 4 = 0)"

definition daysInMonth :: "int \<Rightarrow> int \<Rightarrow> int" where
  "daysInMonth y m =
     (if m = 2 then (if isLeapYear y then 29 else 28)
      else if m \<in> {4, 6, 9, 11} then 30 else 31)"

definition daysFromCivil :: "int \<Rightarrow> int \<Rightarrow> int \<Rightarrow> int" where
  "daysFromCivil y m d =
     (let y' = (if m \<le> 2 then y - 1 else y);
          era = y' div 400;
          yoe = y' - era * 400;
          doy = (153 * (if m > 2 then m - 3 else m + 9) + 2) div 5 + d - 1;
          doe = yoe * 365 + yoe div 4 - yoe div 100 + doy
      in era * 146097 + doe - 719468)"

definition msPerDay :: int where
  "msPerDay = 86400000"

definition isoDateOnly :: parser where
  "isoDateOnly s =
     (if length s = 10 \<and> s ! 4 = 45 \<and> s ! 7 = 45 then
        (case (number (take 4 s), number (take 2 (drop 5 s)), number (drop 8 s)) of
           (Some y, Some m, Some d) \<Rightarrow>
             if 1 \<le> m \<and> m \<le> 12 \<and> 1 \<le> d \<and> d \<le> daysInMonth y m
             then Some (daysFromCivil y m d * msPerDay) else None
         | _ \<Rightarrow> None)
      else None)"

section \<open>The Bakalari client: extraction\<close>

definition unknownSubject :: jstring where
  "unknownSubject = lit ''Nezn'' @ [225] @ lit ''m'' @ [253] @ lit '' p'' @ [345] @ lit ''edm''
     @ [283] @ lit ''t''"

definition extractSubjectName :: "json \<Rightarrow> json" where
  "extractSubjectName subject =
     coalesce [getField (getField subject ''Subject'') ''Abbrev'',
               getField (getField subject ''Subject'') ''Name'',
               getField subject ''Name'',
               getField subject ''Abbrev'',
               JStr unknownSubject]"

definition extractMarkValue :: "json \<Rightarrow> json" where
  "extractMarkValue mark =
     coalesce [getField mark ''MarkText'',
               getField mark ''Text'',
               getField mark ''Caption'',
               getField mark ''ValueText'',
               (if getField mark ''Value'' \<noteq> JUndefined
                then JStr (toStr (getField mark ''Value'')) else JUndefined),
               (if getField mark ''Mark'' \<noteq> JUndefined
                then JStr (toStr (getField mark ''Mark'')) else JUndefined),
               JStr []]"

text \<open>\<open>isMarkWithinRange\<close> compares instants, not days. No function of the client
  calls it.\<close>

definition isMarkWithinRange :: "parser \<Rightarrow> json \<Rightarrow> instant \<Rightarrow> instant \<Rightarrow> bool" where
  "isMarkWithinRange parse mark fromDate toDate =
     (let dateString = coalesce [getField mark ''MarkDate'', getField mark ''Date'',
                                 getField mark ''Created'', getField mark ''CreatedDate'']
      in if \<not> truthy dateString then False
         else (case newDate parse dateString of
                 None \<Rightarrow> False
               | Some markDate \<Rightarrow> markDate \<ge> fromDate \<and> markDate \<le> toDate))"

definition homeworkDueFields :: "string list" where
  "homeworkDueFields =
     [''DueDate'', ''Deadline'', ''Due'', ''DateEnd'', ''Date'', ''Created'', ''CreatedDate'',
      ''DateStart'']"

definition extractHomeworkDueDate :: "parser \<Rightarrow> json \<Rightarrow> instant option" where
  "extractHomeworkDueDate parse homework =
     (let dateString = coalesce (map (getField homework) homeworkDueFields)
      in if \<not> truthy dateString then None else newDate parse dateString)"

text \<open>\<open>parseDate\<close>; its \<open>instanceof Date\<close> branch is never taken on a JSON value.\<close>

definition parseDate :: "parser \<Rightarrow> json \<Rightarrow> instant option" where
  "parseDate parse dateValue = (if \<not> truthy dateValue then None else newDate parse dateValue)"

text \<open>The loop \<open>for (const dateString of possibleDates)\<close> with its early return.\<close>

fun firstParsed :: "parser \<Rightarrow> json list \<Rightarrow> instant option" where
  "firstParsed parse [] = None"
| "firstParsed parse (dateString # rest) =
     (case parseDate parse dateString of
        Some parsed \<Rightarrow> Some parsed
      | None \<Rightarrow> firstParsed parse rest)"

definition eventStartFields :: "string list" where
  "eventStartFields = [''DateFrom'', ''Start'', ''Date'', ''From'', ''Begin'', ''Since'']"

definition extractEventStartDate :: "parser \<Rightarrow> json \<Rightarrow> instant option" where
  "extractEventStartDate parse event = firstParsed parse (map (getField event) eventStartFields)"

definition eventEndFields :: "string list" where
  "eventEndFields = [''DateTo'', ''End'', ''To'', ''Finish'', ''Until'']"

definition extractEventEndDate :: "parser \<Rightarrow> json \<Rightarrow> instant option" where
  "extractEventEndDate parse event =
     (case firstParsed parse (map (getField event) eventEndFields) of
        Some parsed \<Rightarrow> Some parsed
      | None \<Rightarrow> extractEventStartDate parse event)"

definition nonBlankString :: "json \<Rightarrow> bool" where
  "nonBlankString value = (case value of JStr s \<Rightarrow> jsTrim s \<noteq> [] | _ \<Rightarrow> False)"

text \<open>\<open>values.find(value => typeof value === 'string' && value.trim())?.trim()\<close>,
  \<open>None\<close> for \<open>undefined\<close>.\<close>

definition firstTrimmed :: "json list \<Rightarrow> jstring option" where
  "firstTrimmed values =
     (case List.find nonBlankString values of
        Some (JStr s) \<Rightarrow> Some (jsTrim s)
      | _ \<Rightarrow> None)"

definition homeworkContentFields :: "string list" where
  "homeworkContentFields =
     [''HomeworkText'', ''Text'', ''Description'', ''Title'', ''Content'', ''Note'', ''Name'']"

definition extractHomeworkContent :: "json \<Rightarrow> jstring" where
  "extractHomeworkContent homework =
     (case firstTrimmed (map (getField homework) homeworkContentFields) of
        Some s \<Rightarrow> s
      | None \<Rightarrow> [])"

definition unknownEvent :: jstring where
  "unknownEvent = lit ''Nezn'' @ [225] @ lit ''m'' @ [225] @ lit '' ud'' @ [225] @ lit ''lost''"

definition extractEventTitle :: "json \<Rightarrow> jstring" where
  "extractEventTitle event =
     (case firstTrimmed (map (getField event) [''Title'', ''Name'', ''Caption'', ''Description'']) of
        Some s \<Rightarrow> s
      | None \<Rightarrow> unknownEvent)"

definition extractEventDescription :: "json \<Rightarrow> jstring" where
  "extractEventDescription event =
     (case firstTrimmed
             (map (getField event) [''Description'', ''Note'', ''Content'', ''Text'', ''HomeworkText'']) of
        Some s \<Rightarrow> s
      | None \<Rightarrow> [])"

text \<open>Each \<open>if (typeof x === 'string' && x.trim()) return x.trim()\<close> of
  \<open>extractEventType\<close> is \<open>firstTrimmed\<close> on the one value \<open>x\<close>.\<close>

definition extractEventType :: "json \<Rightarrow> jstring" where
  "extractEventType event =
     (let type = coalesce [getField event ''Type'', getField event ''EventType'',
                           getField event ''EventKind'']
      in case firstTrimmed [type] of
           Some s \<Rightarrow> s
         | None \<Rightarrow>
             (case firstTrimmed [getField type ''Name''] of
                Some s \<Rightarrow> s
              | None \<Rightarrow>
                  (case firstTrimmed [getField type ''Abbrev''] of
                     Some s \<Rightarrow> s
                   | None \<Rightarrow> [])))"

section \<open>Day boundaries and the range filters\<close>

text \<open>
  Modelled from the spec: \<open>startOfUtcDay\<close> lives in \<open>util.mjs\<close>, which is not among the
  sources. The specification describes it as the function that truncates an instant to
  UTC midnight of its calendar day.
\<close>

definition startOfUtcDay :: "instant \<Rightarrow> instant" where
  "startOfUtcDay t = t - t mod msPerDay"

definition isHomeworkWithinRange :: "parser \<Rightarrow> json \<Rightarrow> instant \<Rightarrow> instant \<Rightarrow> bool" where
  "isHomeworkWithinRange parse homework fromDate toDate =
     (case extractHomeworkDueDate parse homework of
        None \<Rightarrow> False
      | Some dueDate \<Rightarrow>
          (let startOfDueDay = startOfUtcDay dueDate;
               startOfFromDay = startOfUtcDay fromDate;
               startOfToDay = startOfUtcDay toDate
           in startOfDueDay \<ge> startOfFromDay \<and> startOfDueDay \<le> startOfToDay))"

record event =
  startDate :: "instant option"
  endDate :: "instant option"
  evSubjectName :: json
  title :: jstring
  description :: jstring
  evType :: jstring

definition isEventWithinRange :: "event \<Rightarrow> instant \<Rightarrow> instant \<Rightarrow> bool" where
  "isEventWithinRange ev fromDate toDate =
     (case startDate ev of
        None \<Rightarrow> False
      | Some start \<Rightarrow>
          (let startOfEventDay = startOfUtcDay start;
               startOfFromDay = startOfUtcDay fromDate;
               startOfToDay = startOfUtcDay toDate
           in startOfEventDay \<ge> startOfFromDay \<and> startOfEventDay \<le> startOfToDay))"

section \<open>The three fetch pipelines\<close>

text \<open>
  Each \<open>fetch\<close> function sends \<open>fromDate\<close> and \<open>toDate\<close> with the request and then
  transforms \<open>response.data\<close>. The request is the server's business; the model takes
  the response data as an argument. Calling \<open>forEach\<close>, \<open>filter\<close> or \<open>map\<close> on a
  value that is not an array throws a \<open>TypeError\<close>.
\<close>

definition arrayOf :: "json \<Rightarrow> error + json list" where
  "arrayOf v = (case v of JArr xs \<Rightarrow> Inr xs | _ \<Rightarrow> Inl TypeError)"

record mark =
  subjectName :: json
  markValue :: json
  editDate :: instant
  caption :: json
  theme :: json

definition markEditFields :: "string list" where
  "markEditFields = [''EditDate'', ''MarkDate'', ''Date'', ''Created'', ''CreatedDate'']"

text \<open>The body of \<open>marks.forEach\<close>: one raw mark, pushed onto \<open>allMarks\<close> when it has a
  value and a valid edit date.\<close>

definition pushMark :: "parser \<Rightarrow> json \<Rightarrow> mark list \<Rightarrow> json \<Rightarrow> mark list" where
  "pushMark parse subjName allMarks mk =
     (let markVal = extractMarkValue mk;
          editDateString = coalesce (map (getField mk) markEditFields);
          editD = (if truthy editDateString then newDate parse editDateString else None)
      in case editD of
           None \<Rightarrow> allMarks
         | Some d \<Rightarrow>
             if truthy markVal
             then allMarks @
                  [\<lparr>subjectName = subjName, markValue = markVal, editDate = d,
                    caption = coalesce [getField mk ''Caption'', getField mk ''Theme'', JStr []],
                    theme = coalesce [getField mk ''Theme'', JStr []]\<rparr>]
             else allMarks)"

text \<open>\<open>subjects.forEach\<close>, threading \<open>allMarks\<close>.\<close>

fun forEachSubject :: "parser \<Rightarrow> mark list \<Rightarrow> json list \<Rightarrow> error + mark list" where
  "forEachSubject parse allMarks [] = Inr allMarks"
| "forEachSubject parse allMarks (subject # rest) =
     (let subjName = extractSubjectName subject;
          marks = coalesce [getField subject ''Marks'', getField subject ''marks'', JArr []]
      in case arrayOf marks of
           Inl e \<Rightarrow> Inl e
         | Inr ms \<Rightarrow> forEachSubject parse (foldl (pushMark parse subjName) allMarks ms) rest)"

text \<open>\<open>sort\<close> is stable; with the comparator \<open>b.editDate - a.editDate\<close> it sorts by
  descending edit date, which is ascending order of the negated time value.\<close>

definition fetchSubjectMarks ::
  "parser \<Rightarrow> instant \<Rightarrow> instant \<Rightarrow> json \<Rightarrow> error + mark list" where
  "fetchSubjectMarks parse fromDate toDate responseData =
     (let subjects = coalesce [getField responseData ''Subjects'',
                               getField responseData ''subjects'', JArr []]
      in case arrayOf subjects of
           Inl e \<Rightarrow> Inl e
         | Inr ss \<Rightarrow>
             (case forEachSubject parse [] ss of
                Inl e \<Rightarrow> Inl e
              | Inr allMarks \<Rightarrow> Inr (take 10 (sort_key (\<lambda>m. - editDate m) allMarks))))"

record homework =
  hwSubjectName :: json
  dueDate :: "instant option"
  content :: jstring

text \<open>A \<open>Date\<close> in a subtraction is its time value, and \<open>null\<close> is 0.\<close>

definition timeValue :: "instant option \<Rightarrow> int" where
  "timeValue d = (case d of Some t \<Rightarrow> t | None \<Rightarrow> 0)"

definition fetchHomeworks ::
  "parser \<Rightarrow> instant \<Rightarrow> instant \<Rightarrow> json \<Rightarrow> error + homework list" where
  "fetchHomeworks parse fromDate toDate responseData =
     (let homeworks = coalesce [getField responseData ''Homeworks'',
                                getField responseData ''homeworks'', JArr []]
      in case arrayOf homeworks of
           Inl e \<Rightarrow> Inl e
         | Inr hs \<Rightarrow>
             Inr (sort_key (\<lambda>h. timeValue (dueDate h))
                   (filter (\<lambda>h. dueDate h \<noteq> None)
                     (map (\<lambda>h. \<lparr>hwSubjectName = extractSubjectName h,
                                dueDate = extractHomeworkDueDate parse h,
                                content = extractHomeworkContent h\<rparr>)
                       (filter (\<lambda>h. isHomeworkWithinRange parse h fromDate toDate) hs)))))"

definition toEvent :: "parser \<Rightarrow> json \<Rightarrow> event" where
  "toEvent parse ev =
     \<lparr>startDate = extractEventStartDate parse ev,
      endDate = extractEventEndDate parse ev,
      evSubjectName = extractSubjectName ev,
      title = extractEventTitle ev,
      description = extractEventDescription ev,
      evType = extractEventType ev\<rparr>"

definition fetchEvents ::
  "parser \<Rightarrow> instant \<Rightarrow> instant \<Rightarrow> json \<Rightarrow> error + event list" where
  "fetchEvents parse fromDate toDate responseData =
     (let events = coalesce [getField responseData ''Events'',
                             getField responseData ''events'', JArr []]
      in case arrayOf events of
           Inl e \<Rightarrow> Inl e
         | Inr es \<Rightarrow>
             Inr (sort_key (\<lambda>e. timeValue (startDate e))
                   (filter (\<lambda>e. isEventWithinRange e fromDate toDate)
                     (map (toEvent parse) es))))"

section \<open>The line encoders\<close>

subsection \<open>Percent-encoding\<close>

text \<open>
  The engine's \<open>encodeURIComponent\<close>. It throws a \<open>URIError\<close> when the string holds
  a surrogate code unit that is not part of a pair; otherwise every code point outside
  the unreserved set is replaced by the escapes \<open>%XX\<close> of its UTF-8 octets.
  \<open>percentEncode\<close> is the result on a string without lone surrogates, the only
  strings it is used on.
\<close>

definition isHighSurrogate :: "jchar \<Rightarrow> bool" where
  "isHighSurrogate c = (55296 \<le> unat c \<and> unat c \<le> 56319)"

definition isLowSurrogate :: "jchar \<Rightarrow> bool" where
  "isLowSurrogate c = (56320 \<le> unat c \<and> unat c \<le> 57343)"

fun wellFormed :: "jstring \<Rightarrow> bool" where
  "wellFormed [] = True"
| "wellFormed [c] = (\<not> isHighSurrogate c \<and> \<not> isLowSurrogate c)"
| "wellFormed (c # d # ds) =
     (if isHighSurrogate c then isLowSurrogate d \<and> wellFormed ds
      else if isLowSurrogate c then False
      else wellFormed (d # ds))"

definition isUnreserved :: "jchar \<Rightarrow> bool" where
  "isUnreserved c =
     (let n = unat c
      in (65 \<le> n \<and> n \<le> 90) \<or> (97 \<le> n \<and> n \<le> 122) \<or> (48 \<le> n \<and> n \<le> 57)
         \<or> n \<in> set [45, 95, 46, 33, 126, 42, 39, 40, 41])"

definition utf8 :: "nat \<Rightarrow> nat list" where
  "utf8 cp =
     (if cp < 128 then [cp]
      else if cp < 2048 then [192 + cp div 64, 128 + cp mod 64]
      else if cp < 65536 then [224 + cp div 4096, 128 + (cp div 64) mod 64, 128 + cp mod 64]
      else [240 + cp div 262144, 128 + (cp div 4096) mod 64, 128 + (cp div 64) mod 64,
            128 + cp mod 64])"

definition hexDigit :: "nat \<Rightarrow> jchar" where
  "hexDigit n = of_nat (if n < 10 then 48 + n else 55 + n)"

definition escapes :: "nat list \<Rightarrow> jstring" where
  "escapes octets = concat (map (\<lambda>b. [37, hexDigit (b div 16), hexDigit (b mod 16)]) octets)"

definition escapeUnit :: "jchar \<Rightarrow> jstring" where
  "escapeUnit c = (if isUnreserved c then [c] else escapes (utf8 (unat c)))"

definition pairCodePoint :: "jchar \<Rightarrow> jchar \<Rightarrow> nat" where
  "pairCodePoint c d = 65536 + (unat c - 55296) * 1024 + (unat d - 56320)"

fun percentEncode :: "jstring \<Rightarrow> jstring" where
  "percentEncode [] = []"
| "percentEncode [c] = escapeUnit c"
| "percentEncode (c # d # ds) =
     (if isHighSurrogate c \<and> isLowSurrogate d
      then escapes (utf8 (pairCodePoint c d)) @ percentEncode ds
      else escapeUnit c @ percentEncode (d # ds))"

definition encodeURIComponent :: "jstring \<Rightarrow> error + jstring" where
  "encodeURIComponent s = (if wellFormed s then Inr (percentEncode s) else Inl URIError)"

text \<open>\<open>`${key}=${encodeURIComponent(value)}`\<close>, the shape of every line.\<close>

definition keyValue :: "jstring \<Rightarrow> jstring \<Rightarrow> error + jstring" where
  "keyValue key value =
     (case encodeURIComponent value of
        Inl e \<Rightarrow> Inl e
      | Inr encoded \<Rightarrow> Inr (key @ lit ''='' @ encoded))"

subsection \<open>The helpers\<close>

text \<open>
  What the encoders call and the sources do not contain: \<open>formatDate\<close> and
  \<open>describeRelativeDay\<close> of \<open>util.mjs\<close>, the engine's \<open>Intl.DateTimeFormat\<close>, and
  the clock that \<open>new Date()\<close> reads inside the mark encoder. They are parameters. What
  the three formatters return is text made for display: a string without lone
  surrogates, with \<open>codeUnits\<close> to read it. A date argument that may be \<open>null\<close> is an
  option.
\<close>

typedef formatted = "{s :: jstring. wellFormed s}"
  morphisms codeUnits Formatted
  by (rule exI [of _ "[]"]) simp

setup_lifting type_definition_formatted

record env =
  formatDate :: "instant option \<Rightarrow> formatted"
  describeRelativeDay :: "instant \<Rightarrow> instant option \<Rightarrow> formatted"
  formatShortDate :: "instant \<Rightarrow> formatted"
  currentTime :: instant

subsection \<open>Marks and homeworks\<close>

text \<open>The first argument of an encoder: an array of records, or a value for which
  \<open>Array.isArray\<close> is false.\<close>

datatype 'a jsarg = NotArray json | Items "'a list"

definition noMarksMessage :: jstring where
  "noMarksMessage = [381, 225] @ lit ''dn'' @ [233] @ lit '' nov'' @ [233] @ lit '' zn'' @ [225]
     @ lit ''mky za vybran'' @ [233] @ lit '' obdob'' @ [237] @ lit ''.''"

definition noHomeworksMessage :: jstring where
  "noHomeworksMessage = [381, 225] @ lit ''dn'' @ [233] @ lit '' nadch'' @ [225] @ lit ''zej''
     @ [237] @ lit ''c'' @ [237] @ lit '' dom'' @ [225] @ lit ''c'' @ [237] @ lit '' '' @ [250]
     @ lit ''koly.''"

text \<open>\<open>xs.map((x, index) => ...)\<close> with a callback that may throw.\<close>

fun mapLines :: "('a \<Rightarrow> nat \<Rightarrow> error + jstring) \<Rightarrow> nat \<Rightarrow> 'a list \<Rightarrow> error + jstring list" where
  "mapLines f index [] = Inr []"
| "mapLines f index (x # xs) =
     (case f x index of
        Inl e \<Rightarrow> Inl e
      | Inr l \<Rightarrow> (case mapLines f (Suc index) xs of Inl e \<Rightarrow> Inl e | Inr ls \<Rightarrow> Inr (l # ls)))"

text \<open>The text of one mark line, \<open>line\<close> in the callback of \<open>marks.map\<close>, for a subject
  name that is the string \<open>name\<close>.\<close>

definition markText :: "env \<Rightarrow> jstring \<Rightarrow> mark \<Rightarrow> jstring" where
  "markText env name mk =
     jsTrim name @ lit '': '' @ toStr (markValue mk) @ lit '' (''
       @ codeUnits (formatShortDate env (editDate mk)) @ lit '')''"

text \<open>The callback of \<open>marks.map\<close>. \<open>mark.subjectName.trim()\<close> is a \<open>TypeError\<close> when
  the subject name is not a string, and encoding the line may be a \<open>URIError\<close>.\<close>

definition markLine :: "env \<Rightarrow> jstring \<Rightarrow> mark \<Rightarrow> nat \<Rightarrow> error + jstring" where
  "markLine env linePrefix mk index =
     (case subjectName mk of
        JStr name \<Rightarrow>
          keyValue (linePrefix @ lit ''_'' @ showNat (index + 1)) (markText env name mk)
      | _ \<Rightarrow> Inl TypeError)"

text \<open>The lines of \<open>buildMarksQueryString\<close> before \<open>join('&')\<close>. In a non-empty array
  \<open>marks[0]?.editDate\<close> is a date, so the \<open>?? new Date()\<close> beside it is never used.\<close>

definition marksLines :: "env \<Rightarrow> mark jsarg \<Rightarrow> jstring \<Rightarrow> jstring \<Rightarrow> error + jstring list" where
  "marksLines env marks linePrefix updatedParam =
     (case marks of
        Items (first # others) \<Rightarrow>
          (case mapLines (markLine env linePrefix) 0 (first # others) of
             Inl e \<Rightarrow> Inl e
           | Inr lines \<Rightarrow>
               (let newestEditDate = editDate first
                in case keyValue updatedParam (codeUnits (formatDate env (Some newestEditDate))) of
                     Inl e \<Rightarrow> Inl e
                   | Inr updated \<Rightarrow> Inr (lines @ [updated])))
      | _ \<Rightarrow>
          (case keyValue (linePrefix @ lit ''_1'') noMarksMessage of
             Inl e \<Rightarrow> Inl e
           | Inr first \<Rightarrow>
               (case keyValue updatedParam
                       (codeUnits (formatDate env (Some (currentTime env)))) of
                  Inl e \<Rightarrow> Inl e
                | Inr updated \<Rightarrow> Inr [first, updated])))"

definition buildMarksQueryString :: "env \<Rightarrow> mark jsarg \<Rightarrow> jstring \<Rightarrow> jstring \<Rightarrow> error + jstring" where
  "buildMarksQueryString env marks linePrefix updatedParam =
     (case marksLines env marks linePrefix updatedParam of
        Inl e \<Rightarrow> Inl e
      | Inr lines \<Rightarrow> Inr (join (lit ''&'') lines))"

text \<open>\<open>replace(/\s+/g, ' ')\<close>: every run of white space becomes one space.\<close>

function collapseWs :: "jstring \<Rightarrow> jstring" where
  "collapseWs [] = []"
| "collapseWs (c # cs) =
     (if isWhiteSpace c then 32 # collapseWs (dropWhile isWhiteSpace cs) else c # collapseWs cs)"
  by pat_completeness auto
termination
  by (relation "measure length") (auto simp: length_dropWhile_le less_Suc_eq_le)

text \<open>The text of one homework line, \<open>line\<close> in the callback of \<open>homeworks.map\<close>, and
  its cut, \<open>truncatedLine\<close>. The separator before the due date is an en dash. \<open>length\<close>
  and \<open>substring\<close> count code units, so the cut may fall between the two halves of a
  surrogate pair.\<close>

definition line :: "env \<Rightarrow> instant \<Rightarrow> homework \<Rightarrow> jstring" where
  "line env generatedAt hw =
     (let indicator = codeUnits (describeRelativeDay env generatedAt (dueDate hw));
          subject = hwSubjectName hw;
          cont = collapseWs (if content hw \<noteq> [] then content hw else lit ''Bez popisu'');
          dueDateText = codeUnits (formatDate env (dueDate hw))
      in lit ''['' @ indicator @ lit ''] '' @ toStr subject @ lit '': '' @ cont @ [32, 8211, 32]
           @ dueDateText)"

definition truncatedLine :: "jstring \<Rightarrow> jstring" where
  "truncatedLine l = (if length l > 50 then take 49 l @ lit ''...'' else l)"

text \<open>The callback of \<open>homeworks.slice(0, 10).map\<close>; encoding the cut line may be a
  \<open>URIError\<close>.\<close>

definition homeworkLine :: "env \<Rightarrow> instant \<Rightarrow> jstring \<Rightarrow> homework \<Rightarrow> nat \<Rightarrow> error + jstring" where
  "homeworkLine env generatedAt linePrefix hw index =
     keyValue (linePrefix @ lit ''_'' @ showNat (index + 1))
       (truncatedLine (line env generatedAt hw))"

text \<open>The lines of \<open>buildHomeworksQueryString\<close> before \<open>join('&')\<close>.\<close>

definition homeworksLines ::
  "env \<Rightarrow> homework jsarg \<Rightarrow> instant \<Rightarrow> jstring \<Rightarrow> jstring \<Rightarrow> error + jstring list" where
  "homeworksLines env homeworks generatedAt linePrefix updatedParam =
     (case homeworks of
        Items (first # others) \<Rightarrow>
          (case mapLines (homeworkLine env generatedAt linePrefix) 0 (take 10 (first # others)) of
             Inl e \<Rightarrow> Inl e
           | Inr lines \<Rightarrow>
               (case keyValue updatedParam (codeUnits (formatDate env (Some generatedAt))) of
                  Inl e \<Rightarrow> Inl e
                | Inr updated \<Rightarrow> Inr (lines @ [updated])))
      | _ \<Rightarrow>
          (case keyValue (linePrefix @ lit ''_1'') noHomeworksMessage of
             Inl e \<Rightarrow> Inl e
           | Inr first \<Rightarrow>
               (case keyValue updatedParam (codeUnits (formatDate env (Some generatedAt))) of
                  Inl e \<Rightarrow> Inl e
                | Inr updated \<Rightarrow> Inr [first, updated])))"

definition buildHomeworksQueryString ::
  "env \<Rightarrow> homework jsarg \<Rightarrow> instant \<Rightarrow> jstring \<Rightarrow> jstring \<Rightarrow> error + jstring" where
  "buildHomeworksQueryString env homeworks generatedAt linePrefix updatedParam =
     (case homeworksLines env homeworks generatedAt linePrefix updatedParam of
        Inl e \<Rightarrow> Inl e
      | Inr lines \<Rightarrow> Inr (join (lit ''&'') lines))"

section \<open>The sync scripts\<close>

text \<open>
  \<open>marks-sync.mjs\<close> pipes what \<open>fetchSubjectMarks(fromDate, now)\<close> emits into
  \<open>buildMarksQueryString\<close>; the homework script does the same with \<open>fetchHomeworks\<close>,
  the start of today as \<open>fromDate\<close> and \<open>now\<close> as the generation time. An error of
  the fetch stage skips the encoder.
\<close>

definition marksSync ::
  "env \<Rightarrow> parser \<Rightarrow> jstring \<Rightarrow> jstring \<Rightarrow> instant \<Rightarrow> instant \<Rightarrow> json \<Rightarrow> error + jstring" where
  "marksSync env parse gradesLinePrefix gradesUpdatedParam fromDate now responseData =
     (case fetchSubjectMarks parse fromDate now responseData of
        Inl e \<Rightarrow> Inl e
      | Inr marks \<Rightarrow> buildMarksQueryString env (Items marks) gradesLinePrefix gradesUpdatedParam)"

definition homeworksSync ::
  "env \<Rightarrow> parser \<Rightarrow> jstring \<Rightarrow> jstring \<Rightarrow> instant \<Rightarrow> instant \<Rightarrow> json \<Rightarrow> error + jstring" where
  "homeworksSync env parse homeworksLinePrefix homeworksUpdatedParam now toDate responseData =
     (case fetchHomeworks parse (startOfUtcDay now) toDate responseData of
        Inl e \<Rightarrow> Inl e
      | Inr homeworks \<Rightarrow>
          buildHomeworksQueryString env (Items homeworks) now homeworksLinePrefix
            homeworksUpdatedParam)"

section \<open>The resolvers as the specification words them\<close>

text \<open>
  The field resolver of the specification: the candidates in priority order, the first
  value that is a string with non-whitespace content, trimmed; \<open>None\<close> is its
  \<open>undefined\<close>.
\<close>

fun resolve :: "json \<Rightarrow> string list \<Rightarrow> jstring option" where
  "resolve record [] = None"
| "resolve record (k # ks) =
     (case getField record k of
        JStr s \<Rightarrow> if jsTrim s \<noteq> [] then Some (jsTrim s) else resolve record ks
      | _ \<Rightarrow> resolve record ks)"

text \<open>
  The date resolver of the specification: each candidate field in order, the first one
  that parses to a valid instant wins, and a value that does not parse lets the next
  candidate be tried.
\<close>

fun resolveDate :: "parser \<Rightarrow> json \<Rightarrow> string list \<Rightarrow> instant option" where
  "resolveDate parse record [] = None"
| "resolveDate parse record (k # ks) =
     (case parseDate parse (getField record k) of
        Some t \<Rightarrow> Some t
      | None \<Rightarrow> resolveDate parse record ks)"

text \<open>
  Mark normalization as the specification words it: for every subject group the subject
  name once, then for every nested mark its value and its edit date; a nested mark is
  discarded when either resolution fails.
\<close>

definition markEditDate :: "parser \<Rightarrow> json \<Rightarrow> instant option" where
  "markEditDate parse mk =
     (let editDateString = coalesce (map (getField mk) markEditFields)
      in if truthy editDateString then newDate parse editDateString else None)"

definition validMark :: "parser \<Rightarrow> json \<Rightarrow> json \<Rightarrow> mark option" where
  "validMark parse subjName mk =
     (case markEditDate parse mk of
        None \<Rightarrow> None
      | Some d \<Rightarrow>
          if truthy (extractMarkValue mk)
          then Some \<lparr>subjectName = subjName, markValue = extractMarkValue mk, editDate = d,
                     caption = coalesce [getField mk ''Caption'', getField mk ''Theme'', JStr []],
                     theme = coalesce [getField mk ''Theme'', JStr []]\<rparr>
          else None)"

definition isArray :: "json \<Rightarrow> bool" where
  "isArray v = (case v of JArr xs \<Rightarrow> True | _ \<Rightarrow> False)"

definition elems :: "json \<Rightarrow> json list" where
  "elems v = (case v of JArr xs \<Rightarrow> xs | _ \<Rightarrow> [])"

definition subjectGroups :: "json \<Rightarrow> json" where
  "subjectGroups responseData =
     coalesce [getField responseData ''Subjects'', getField responseData ''subjects'', JArr []]"

definition rawMarks :: "json \<Rightarrow> json" where
  "rawMarks subject = coalesce [getField subject ''Marks'', getField subject ''marks'', JArr []]"

definition validMarks :: "parser \<Rightarrow> json \<Rightarrow> mark list" where
  "validMarks parse responseData =
     concat (map (\<lambda>subject. List.map_filter (validMark parse (extractSubjectName subject))
                                (elems (rawMarks subject)))
                 (elems (subjectGroups responseData)))"

text \<open>A marks payload whose containers, where present, are arrays: the list of subject
  groups, each with its nested list of marks.\<close>

definition marksPayloadOk :: "json \<Rightarrow> bool" where
  "marksPayloadOk responseData =
     (isArray (subjectGroups responseData)
      \<and> list_all (\<lambda>subject. isArray (rawMarks subject)) (elems (subjectGroups responseData)))"

text \<open>A mark the mark encoder can turn into a line: its subject name is a string, and
  the text of its line holds no lone surrogate.\<close>

definition markEncodable :: "env \<Rightarrow> mark \<Rightarrow> bool" where
  "markEncodable env mk =
     (case subjectName mk of JStr name \<Rightarrow> wellFormed (markText env name mk) | _ \<Rightarrow> False)"

definition rawEvents :: "json \<Rightarrow> json" where
  "rawEvents responseData =
     coalesce [getField responseData ''Events'', getField responseData ''events'', JArr []]"

section \<open>Sample payloads\<close>

text \<open>Stand-ins for the helpers the encoders are given, for use where a concrete
  environment is needed: a date prints as the decimal digits of its time value, the
  relative day as the difference of the time values, and the clock stands at the epoch.\<close>

lift_definition decimalText :: "int \<Rightarrow> formatted" is showInt
proof -
  fix i :: int
  have small: "wellFormed s" if "list_all (\<lambda>c. unat c < 55296) s" for s
    using that
    by (induction s rule: wellFormed.induct)
       (auto simp: isHighSurrogate_def isLowSurrogate_def)
  have digit: "unat (digitChar d) < 55296" if "d < 10" for d
  proof -
    have "unat (of_nat (48 + d) :: jchar) = 48 + d"
      using that by (subst unat_of_nat) simp
    then show ?thesis using that by (simp add: digitChar_def)
  qed
  have digits: "list_all (\<lambda>c. unat c < 55296) (showNat n)" for n
  proof (induction n rule: showNat.induct)
    case (1 n)
    show ?case
    proof (cases "n < 10")
      case True
      then show ?thesis by (subst showNat.simps) (simp add: digit)
    next
      case False
      then show ?thesis using 1 by (subst showNat.simps) (simp add: digit)
    qed
  qed
  have "list_all (\<lambda>c. unat c < 55296) (showInt i)"
    using digits by (simp add: showInt_def lit_def)
  then show "wellFormed (showInt i)" by (rule small)
qed

definition sampleEnv :: env where
  "sampleEnv =
     \<lparr>formatDate = (\<lambda>d. decimalText (timeValue d)),
      describeRelativeDay = (\<lambda>generatedAt due. decimalText (timeValue due - generatedAt)),
      formatShortDate = decimalText,
      currentTime = 0\<rparr>"

text \<open>A raw mark with the value \<open>"1"\<close> and a numeric date, the record it is
  normalized to, and a payload of two subject groups holding fifteen such marks with
  distinct dates.\<close>

definition sampleMark :: "int \<Rightarrow> json" where
  "sampleMark n = JObj [(''MarkText'', JStr (lit ''1'')), (''Date'', JNum n)]"

definition sampleRecord :: "json \<Rightarrow> int \<Rightarrow> mark" where
  "sampleRecord subjName n =
     \<lparr>subjectName = subjName, markValue = JStr (lit ''1''), editDate = n,
      caption = JStr [], theme = JStr []\<rparr>"

definition fifteenMarks :: json where
  "fifteenMarks =
     JObj [(''Subjects'',
            JArr [JObj [(''Name'', JStr (lit ''M'')),
                        (''Marks'', JArr (map sampleMark [3, 1, 4, 15, 9, 2, 6]))],
                  JObj [(''Name'', JStr (lit ''F'')),
                        (''Marks'', JArr (map sampleMark [5, 13, 8, 7, 12, 11, 10, 14]))]])]"

section \<open>Day boundaries and the range filters: properties\<close>

lemma startOfUtcDay_div: "startOfUtcDay t = (t div msPerDay) * msPerDay"
  by (simp add: startOfUtcDay_def minus_mod_eq_div_mult)

lemma startOfUtcDay_le: "startOfUtcDay t \<le> t"
  by (simp add: startOfUtcDay_def msPerDay_def)

lemma startOfUtcDay_gt: "t < startOfUtcDay t + msPerDay"
  by (simp add: startOfUtcDay_def msPerDay_def)

lemma startOfUtcDay_mono: "a \<le> b \<Longrightarrow> startOfUtcDay a \<le> startOfUtcDay b"
  by (simp add: startOfUtcDay_div msPerDay_def zdiv_mono1)

lemma startOfUtcDay_idem: "startOfUtcDay (startOfUtcDay x) = startOfUtcDay x"
  by (simp add: startOfUtcDay_div msPerDay_def)

text \<open>Comparing day floors is comparing against the whole days of the range: from the
  first millisecond of the day of \<open>f\<close> to the last millisecond of the day of \<open>t\<close>.\<close>

lemma day_range_iff:
  "startOfUtcDay f \<le> startOfUtcDay d \<and> startOfUtcDay d \<le> startOfUtcDay t
   \<longleftrightarrow> startOfUtcDay f \<le> d \<and> d < startOfUtcDay t + msPerDay"
proof
  assume "startOfUtcDay f \<le> startOfUtcDay d \<and> startOfUtcDay d \<le> startOfUtcDay t"
  then show "startOfUtcDay f \<le> d \<and> d < startOfUtcDay t + msPerDay"
    using startOfUtcDay_le [of d] startOfUtcDay_gt [of d] by linarith
next
  assume h: "startOfUtcDay f \<le> d \<and> d < startOfUtcDay t + msPerDay"
  have "startOfUtcDay (startOfUtcDay f) \<le> startOfUtcDay d"
    using h by (intro startOfUtcDay_mono) simp
  moreover have "startOfUtcDay d \<le> startOfUtcDay t"
  proof (rule ccontr)
    assume "\<not> startOfUtcDay d \<le> startOfUtcDay t"
    then have lt: "startOfUtcDay t < startOfUtcDay d" by simp
    have "msPerDay dvd startOfUtcDay d - startOfUtcDay t"
      by (simp add: startOfUtcDay_div)
    with lt have "msPerDay \<le> startOfUtcDay d - startOfUtcDay t"
      by (intro zdvd_imp_le) simp_all
    then show False using h startOfUtcDay_le [of d] by linarith
  qed
  ultimately show "startOfUtcDay f \<le> startOfUtcDay d \<and> startOfUtcDay d \<le> startOfUtcDay t"
    by (simp add: startOfUtcDay_idem)
qed

text \<open>
  C3. The range filters keep a record exactly when the day floor of its date lies between
  the day floors of \<open>fromDate\<close> and \<open>toDate\<close>, both included; a record without a date
  is not kept. When the two ends of the range are the same instant, the records kept are
  those whose date falls anywhere within that one UTC day.
\<close>

theorem range_filter_day_floor:
  "isHomeworkWithinRange parse homework fromDate toDate =
     (\<exists>d. extractHomeworkDueDate parse homework = Some d
          \<and> startOfUtcDay d \<ge> startOfUtcDay fromDate \<and> startOfUtcDay d \<le> startOfUtcDay toDate)
   \<and> isEventWithinRange ev fromDate toDate =
     (\<exists>d. startDate ev = Some d
          \<and> startOfUtcDay d \<ge> startOfUtcDay fromDate \<and> startOfUtcDay d \<le> startOfUtcDay toDate)
   \<and> isHomeworkWithinRange parse homework day day =
     (\<exists>d. extractHomeworkDueDate parse homework = Some d
          \<and> startOfUtcDay day \<le> d \<and> d < startOfUtcDay day + msPerDay)
   \<and> isEventWithinRange ev day day =
     (\<exists>d. startDate ev = Some d \<and> startOfUtcDay day \<le> d \<and> d < startOfUtcDay day + msPerDay)"
  by (simp add: isHomeworkWithinRange_def isEventWithinRange_def day_range_iff
        split: option.split)

section \<open>Date resolution\<close>

lemma isoDateOnly_sample: "isoDateOnly (lit ''2024-03-10'') = Some 1710028800000"
  by (simp add: isoDateOnly_def lit_def daysInMonth_def isLeapYear_def daysFromCivil_def
        msPerDay_def digitVal_def)

lemma isoDateOnly_abc: "isoDateOnly (lit ''abc'') = None"
  by (simp add: isoDateOnly_def lit_def)

lemma lit_nonempty: "lit ''abc'' \<noteq> [] \<and> lit ''2024-03-10'' \<noteq> [] \<and> lit ''1'' \<noteq> []"
  by (simp add: lit_def)

text \<open>The event start date is resolved the way the specification words it: the loop goes
  on to the next candidate when one does not parse.\<close>

lemma firstParsed_resolveDate:
  "firstParsed parse (map (getField record) ks) = resolveDate parse record ks"
  by (induction ks) (simp_all split: option.split)

lemma extractEventStartDate_resolveDate:
  "extractEventStartDate parse event = resolveDate parse event eventStartFields"
  by (simp add: extractEventStartDate_def firstParsed_resolveDate)

text \<open>
  C1. The homework due date and the mark edit date are not resolved that way. The chain
  of \<open>??\<close> picks the first candidate that is present, and only that one is parsed: a
  homework whose \<open>DueDate\<close> is the string \<open>abc\<close> and whose \<open>Deadline\<close> is
  \<open>2024-03-10\<close> gets no due date, although the second candidate is a valid instant, and
  a mark with such an \<open>EditDate\<close> and \<open>MarkDate\<close> is dropped. The event start date,
  on the same values, is resolved from the second candidate.
\<close>

theorem due_date_blocked_by_unparseable_candidate:
  "extractHomeworkDueDate isoDateOnly
     (JObj [(''DueDate'', JStr (lit ''abc'')), (''Deadline'', JStr (lit ''2024-03-10''))]) = None
   \<and> resolveDate isoDateOnly
       (JObj [(''DueDate'', JStr (lit ''abc'')), (''Deadline'', JStr (lit ''2024-03-10''))])
       homeworkDueFields = Some 1710028800000
   \<and> fetchSubjectMarks isoDateOnly 0 0
       (JObj [(''Subjects'',
               JArr [JObj [(''Marks'',
                            JArr [JObj [(''MarkText'', JStr (lit ''1'')),
                                        (''EditDate'', JStr (lit ''abc'')),
                                        (''MarkDate'', JStr (lit ''2024-03-10''))]])]])]) = Inr []
   \<and> extractEventStartDate isoDateOnly
       (JObj [(''DateFrom'', JStr (lit ''abc'')), (''Start'', JStr (lit ''2024-03-10''))])
       = Some 1710028800000"
  by (simp add: extractHomeworkDueDate_def homeworkDueFields_def nullish_def newDate_def
        parseDate_def extractEventStartDate_def eventStartFields_def
        fetchSubjectMarks_def arrayOf_def pushMark_def markEditFields_def extractMarkValue_def
        extractSubjectName_def
        isoDateOnly_sample isoDateOnly_abc lit_nonempty)

section \<open>Field resolution\<close>

lemma firstTrimmed_Cons:
  "firstTrimmed (v # vs) =
     (case v of
        JStr s \<Rightarrow> if jsTrim s \<noteq> [] then Some (jsTrim s) else firstTrimmed vs
      | _ \<Rightarrow> firstTrimmed vs)"
  by (simp add: firstTrimmed_def nonBlankString_def split: json.split)

lemma firstTrimmed_resolve:
  "firstTrimmed (map (getField record) ks) = resolve record ks"
proof (induction ks)
  case Nil
  show ?case by (simp add: firstTrimmed_def)
next
  case (Cons k ks)
  then show ?case by (simp add: firstTrimmed_Cons split: json.split)
qed

text \<open>
  C2, as the code has it. Homework content, event title and event description are
  resolved as the specification words it: the trimmed value of the first candidate that is
  a string with non-whitespace content, every other candidate skipped. The functions are
  total, and where no candidate matches they return their fixed default, the empty
  string or the "unknown event" label, not \<open>undefined\<close>.
\<close>

theorem text_fields_resolved_with_default:
  "extractHomeworkContent homework =
     (case resolve homework homeworkContentFields of Some s \<Rightarrow> s | None \<Rightarrow> [])
   \<and> extractEventTitle event =
     (case resolve event [''Title'', ''Name'', ''Caption'', ''Description''] of
        Some s \<Rightarrow> s | None \<Rightarrow> unknownEvent)
   \<and> extractEventDescription event =
     (case resolve event [''Description'', ''Note'', ''Content'', ''Text'', ''HomeworkText''] of
        Some s \<Rightarrow> s | None \<Rightarrow> [])"
  unfolding extractHomeworkContent_def extractEventTitle_def extractEventDescription_def
  by (simp only: firstTrimmed_resolve simp_thms)

text \<open>
  C2 as stated fails twice. A homework without any content field gets the empty
  string where the resolver of the specification has \<open>undefined\<close>. And the mark value
  is a chain of \<open>??\<close>: a \<open>MarkText\<close> of one blank is returned as it is, untrimmed, though
  \<open>Text\<close> holds \<open>1\<close>.
\<close>

theorem field_resolution_counterexample:
  "extractHomeworkContent (JObj []) = []
   \<and> resolve (JObj []) homeworkContentFields = None
   \<and> extractMarkValue (JObj [(''MarkText'', JStr (lit '' '')), (''Text'', JStr (lit ''1''))])
       = JStr (lit '' '')
   \<and> resolve (JObj [(''MarkText'', JStr (lit '' '')), (''Text'', JStr (lit ''1''))])
       [''MarkText'', ''Text'', ''Caption'', ''ValueText'', ''Value'', ''Mark'']
       = Some (lit ''1'')"
  by (simp add: extractHomeworkContent_def firstTrimmed_def homeworkContentFields_def
        extractMarkValue_def nullish_def jsTrim_def lit_def isWhiteSpace_def)
section \<open>The mark pipeline\<close>

lemma pushMark_validMark:
  "pushMark parse sn acc mk = acc @ (case validMark parse sn mk of None \<Rightarrow> [] | Some m \<Rightarrow> [m])"
  by (simp add: pushMark_def validMark_def markEditDate_def Let_def split: option.split)

lemma foldl_pushMark:
  "foldl (pushMark parse sn) acc ms = acc @ List.map_filter (validMark parse sn) ms"
  by (induction ms arbitrary: acc)
     (simp_all add: pushMark_validMark map_filter_simps split: option.split)

lemma arrayOf_cases:
  "arrayOf v = (if isArray v then Inr (elems v) else Inl TypeError)"
  by (simp add: arrayOf_def isArray_def elems_def split: json.split)

lemma forEachSubject_eq:
  "forEachSubject parse acc ss =
     (if list_all (\<lambda>subject. isArray (rawMarks subject)) ss
      then Inr (acc @ concat (map (\<lambda>subject. List.map_filter (validMark parse (extractSubjectName subject))
                                      (elems (rawMarks subject))) ss))
      else Inl TypeError)"
proof (induction ss arbitrary: acc)
  case Nil
  show ?case by simp
next
  case (Cons subject rest)
  have "forEachSubject parse acc (subject # rest) =
          (case arrayOf (rawMarks subject) of
             Inl e \<Rightarrow> Inl e
           | Inr ms \<Rightarrow>
               forEachSubject parse (foldl (pushMark parse (extractSubjectName subject)) acc ms) rest)"
    by (simp add: rawMarks_def Let_def)
  then show ?case
    by (simp add: Cons.IH arrayOf_cases foldl_pushMark)
qed

lemma fetchSubjectMarks_eq:
  "fetchSubjectMarks parse fromDate toDate responseData =
     (if marksPayloadOk responseData
      then Inr (take 10 (sort_key (\<lambda>m. - editDate m) (validMarks parse responseData)))
      else Inl TypeError)"
proof -
  have "fetchSubjectMarks parse fromDate toDate responseData =
          (case arrayOf (subjectGroups responseData) of
             Inl e \<Rightarrow> Inl e
           | Inr ss \<Rightarrow>
               (case forEachSubject parse [] ss of
                  Inl e \<Rightarrow> Inl e
                | Inr allMarks \<Rightarrow> Inr (take 10 (sort_key (\<lambda>m. - editDate m) allMarks))))"
    by (simp add: fetchSubjectMarks_def subjectGroups_def Let_def)
  then show ?thesis
    by (simp add: arrayOf_cases forEachSubject_eq marksPayloadOk_def validMarks_def)
qed

lemma sorted_desc_sort_key:
  "sorted_wrt (\<lambda>a b. editDate a \<ge> editDate b) (sort_key (\<lambda>m. - editDate (m::mark)) xs)"
proof -
  have "sorted (map (\<lambda>m. - editDate m) (sort_key (\<lambda>m. - editDate (m::mark)) xs))"
    by (rule sorted_sort_key)
  then show ?thesis
    by (simp add: sorted_map)
qed

lemma strict_desc:
  assumes "sorted_wrt (\<lambda>a b. editDate a \<ge> editDate (b::mark)) s"
    and "distinct (map editDate s)"
  shows "sorted_wrt (\<lambda>a b. editDate a > editDate b) s"
  using assms
proof (induction s)
  case Nil
  show ?case by simp
next
  case (Cons a s)
  have le: "\<forall>x \<in> set s. editDate x \<le> editDate a"
    using Cons.prems(1) by simp
  have ne: "\<forall>x \<in> set s. editDate x \<noteq> editDate a"
  proof
    fix x assume "x \<in> set s"
    then have "editDate x \<in> set (map editDate s)" by simp
    moreover have "editDate a \<notin> set (map editDate s)" using Cons.prems(2) by simp
    ultimately show "editDate x \<noteq> editDate a" by metis
  qed
  have "\<forall>x \<in> set s. editDate x < editDate a"
  proof
    fix x assume "x \<in> set s"
    with le ne show "editDate x < editDate a" by (simp add: less_le)
  qed
  then show ?case using Cons by simp
qed

lemma take_drop_sorted_desc:
  assumes "sorted_wrt (\<lambda>a b. editDate a \<ge> editDate (b::mark)) s"
    and "m \<in> set (take n s)" and "m' \<in> set (drop n s)"
  shows "editDate m' \<le> editDate m"
proof -
  have "sorted_wrt (\<lambda>a b. editDate a \<ge> editDate b) (take n s @ drop n s)"
    using assms(1) by simp
  then show ?thesis
    using assms(2,3) unfolding sorted_wrt_append by blast
qed

lemma mset_diff_take:
  "mset xs - mset (take n (sort_key k xs)) = mset (drop n (sort_key k xs))"
proof -
  have "mset xs = mset (take n (sort_key k xs) @ drop n (sort_key k xs))"
    by simp
  then have "mset xs = mset (take n (sort_key k xs)) + mset (drop n (sort_key k xs))"
    by (simp only: mset_append)
  then show ?thesis by simp
qed

text \<open>
  C4. On a payload of subject groups with their nested mark lists, the mark pipeline
  returns the valid marks of all groups, sorted by descending edit date and cut to the
  first ten; neither \<open>fromDate\<close> nor \<open>toDate\<close> takes part in the result. The marks left
  out are never newer than a mark kept, and of fifteen valid marks with distinct edit
  dates exactly the ten most recent come out, in strictly descending order.
\<close>

theorem marks_sorted_desc_capped:
  assumes "marksPayloadOk responseData"
  shows "\<exists>out. fetchSubjectMarks parse fromDate toDate responseData = Inr out
     \<and> out = take 10 (sort_key (\<lambda>m. - editDate m) (validMarks parse responseData))
     \<and> fetchSubjectMarks parse otherFrom otherTo responseData = Inr out
     \<and> sorted_wrt (\<lambda>a b. editDate a \<ge> editDate b) out
     \<and> length out = min 10 (length (validMarks parse responseData))
     \<and> mset out \<subseteq># mset (validMarks parse responseData)
     \<and> (\<forall>m \<in> set out. \<forall>m' \<in># mset (validMarks parse responseData) - mset out.
            editDate m' \<le> editDate m)
     \<and> (length (validMarks parse responseData) = 15
          \<and> distinct (map editDate (validMarks parse responseData))
        \<longrightarrow> length out = 10
            \<and> sorted_wrt (\<lambda>a b. editDate a > editDate b) out
            \<and> (\<forall>m \<in> set out. \<forall>m' \<in> set (validMarks parse responseData) - set out.
                   editDate m' < editDate m))"
proof -
  define valid where "valid = validMarks parse responseData"
  define s where "s = sort_key (\<lambda>m. - editDate m) valid"
  define out where "out = take 10 s"
  have fetch: "fetchSubjectMarks parse fromDate toDate responseData = Inr out"
    using assms by (simp add: fetchSubjectMarks_eq out_def s_def valid_def)
  have other: "fetchSubjectMarks parse otherFrom otherTo responseData = Inr out"
    using assms by (simp add: fetchSubjectMarks_eq out_def s_def valid_def)
  have sorted_s: "sorted_wrt (\<lambda>a b. editDate a \<ge> editDate b) s"
    unfolding s_def by (rule sorted_desc_sort_key)
  have sorted_out: "sorted_wrt (\<lambda>a b. editDate a \<ge> editDate b) out"
    unfolding out_def using sorted_s by (rule sorted_wrt_take)
  have len: "length out = min 10 (length valid)"
    by (simp add: out_def s_def min.commute)
  have rest: "mset valid - mset out = mset (drop 10 s)"
    unfolding out_def s_def by (rule mset_diff_take)
  have sub: "mset out \<subseteq># mset valid"
  proof -
    have "mset valid = mset (take 10 s @ drop 10 s)" by (simp add: s_def)
    then show ?thesis by (simp add: out_def del: append_take_drop_id)
  qed
  have newest: "\<forall>m \<in> set out. \<forall>m' \<in># mset valid - mset out. editDate m' \<le> editDate m"
  proof (intro ballI)
    fix m m'
    assume m: "m \<in> set out" and "m' \<in># mset valid - mset out"
    then have "m' \<in> set (drop 10 s)" by (simp add: rest)
    with m show "editDate m' \<le> editDate m"
      unfolding out_def by (rule take_drop_sorted_desc [OF sorted_s])
  qed
  have special: "length out = 10
      \<and> sorted_wrt (\<lambda>a b. editDate a > editDate b) out
      \<and> (\<forall>m \<in> set out. \<forall>m' \<in> set valid - set out. editDate m' < editDate m)"
    if l: "length valid = 15" and d: "distinct (map editDate valid)"
  proof -
    have ds: "distinct (map editDate s)"
    proof -
      have "mset (map editDate s) = mset (map editDate valid)" by (simp add: s_def)
      then show ?thesis using d by (metis mset_eq_imp_distinct_iff)
    qed
    have inj: "editDate a \<noteq> editDate b" if "a \<in> set (take 10 s)" "b \<in> set (drop 10 s)" for a b
    proof -
      have "distinct (map editDate (take 10 s) @ map editDate (drop 10 s))"
        using ds by (simp flip: map_append)
      then show ?thesis using that by auto
    qed
    have strict_s: "sorted_wrt (\<lambda>a b. editDate a > editDate b) s"
      using sorted_s ds by (rule strict_desc)
    have "set valid - set out \<subseteq> set (drop 10 s)"
    proof -
      have "set valid = set (take 10 s @ drop 10 s)" by (simp add: s_def)
      then show ?thesis by (auto simp: out_def simp del: append_take_drop_id)
    qed
    then have "\<forall>m \<in> set out. \<forall>m' \<in> set valid - set out. editDate m' < editDate m"
      using take_drop_sorted_desc [OF sorted_s, of _ 10] inj
      by (fastforce simp: out_def less_le)
    moreover have "sorted_wrt (\<lambda>a b. editDate a > editDate b) out"
      unfolding out_def using strict_s by (rule sorted_wrt_take)
    ultimately show ?thesis using l len by simp
  qed
  show ?thesis
    using fetch other sorted_out len sub newest special
    unfolding out_def s_def valid_def by blast
qed

lemma validMark_sampleMark:
  "\<bar>n\<bar> \<le> 8640000000000000 \<Longrightarrow> n \<noteq> 0 \<Longrightarrow>
   validMark parse sn (sampleMark n) = Some (sampleRecord sn n)"
  by (simp add: validMark_def sampleMark_def sampleRecord_def markEditDate_def markEditFields_def
        extractMarkValue_def nullish_def newDate_def timeClip_def lit_def)

lemma editDate_sampleRecord: "editDate (sampleRecord sn n) = n"
  by (simp add: sampleRecord_def)

lemma fifteenMarks_ok: "marksPayloadOk fifteenMarks"
  by (simp add: marksPayloadOk_def fifteenMarks_def subjectGroups_def rawMarks_def nullish_def
        isArray_def elems_def)

lemma fifteenMarks_valid:
  "validMarks parse fifteenMarks =
     map (sampleRecord (JStr (lit ''M''))) [3, 1, 4, 15, 9, 2, 6]
       @ map (sampleRecord (JStr (lit ''F''))) [5, 13, 8, 7, 12, 11, 10, 14]"
  by (simp add: validMarks_def fifteenMarks_def subjectGroups_def rawMarks_def nullish_def
        elems_def map_filter_simps validMark_sampleMark extractSubjectName_def)

lemma fifteenMarks_sorted:
  "map editDate (take 10 (sort_key (\<lambda>m. - editDate m) (validMarks parse fifteenMarks)))
     = [15, 14, 13, 12, 11, 10, 9, 8, 7, 6]"
  by (simp add: fifteenMarks_valid editDate_sampleRecord)

theorem marks_sorted_desc_capped_witness:
  "marksPayloadOk fifteenMarks
   \<and> length (validMarks isoDateOnly fifteenMarks) = 15
   \<and> distinct (map editDate (validMarks isoDateOnly fifteenMarks))
   \<and> \<not> isMarkWithinRange isoDateOnly (sampleMark 15) 0 0
   \<and> (\<exists>out. fetchSubjectMarks isoDateOnly 0 0 fifteenMarks = Inr out
          \<and> map editDate out = [15, 14, 13, 12, 11, 10, 9, 8, 7, 6]
          \<and> length out = 10
          \<and> sorted_wrt (\<lambda>a b. editDate a > editDate b) out)"
proof -
  have l: "length (validMarks isoDateOnly fifteenMarks) = 15"
    by (simp add: fifteenMarks_valid)
  have d: "distinct (map editDate (validMarks isoDateOnly fifteenMarks))"
    by (simp add: fifteenMarks_valid editDate_sampleRecord)
  have r: "\<not> isMarkWithinRange isoDateOnly (sampleMark 15) 0 0"
    by (simp add: isMarkWithinRange_def sampleMark_def nullish_def newDate_def timeClip_def)
  from marks_sorted_desc_capped [OF fifteenMarks_ok, of isoDateOnly 0 0] l d
  obtain out where
    f: "fetchSubjectMarks isoDateOnly 0 0 fifteenMarks = Inr out" and
    o: "out = take 10 (sort_key (\<lambda>m. - editDate m) (validMarks isoDateOnly fifteenMarks))" and
    n: "length out = 10" and
    s: "sorted_wrt (\<lambda>a b. editDate a > editDate b) out"
    by blast
  have e: "map editDate out = [15, 14, 13, 12, 11, 10, 9, 8, 7, 6]"
    unfolding o by (rule fifteenMarks_sorted)
  from f e n s
  have "\<exists>out. fetchSubjectMarks isoDateOnly 0 0 fifteenMarks = Inr out
          \<and> map editDate out = [15, 14, 13, 12, 11, 10, 9, 8, 7, 6]
          \<and> length out = 10
          \<and> sorted_wrt (\<lambda>a b. editDate a > editDate b) out"
    by (intro exI [of _ out] conjI)
  with fifteenMarks_ok l d r show ?thesis
    by (intro conjI)
qed

section \<open>Mark normalization\<close>

lemma validMark_SomeD:
  assumes "validMark parse sn mk = Some m"
  shows "truthy (markValue m) \<and> subjectName m = sn \<and> markValue m = extractMarkValue mk
         \<and> markEditDate parse mk = Some (editDate m)"
  using assms by (auto simp: validMark_def split: option.splits if_splits)

lemma validMarks_origin:
  assumes "m \<in> set (validMarks parse responseData)"
  shows "\<exists>subject \<in> set (elems (subjectGroups responseData)).
           \<exists>mk \<in> set (elems (rawMarks subject)).
             validMark parse (extractSubjectName subject) mk = Some m"
proof -
  from assms obtain subject mk where
    "subject \<in> set (elems (subjectGroups responseData))"
    "mk \<in> set (elems (rawMarks subject))"
    "validMark parse (extractSubjectName subject) mk = Some m"
    by (auto simp: validMarks_def map_filter_def)
  then show ?thesis by blast
qed

lemma truthy_not_empty_string: "truthy v \<Longrightarrow> v \<noteq> JStr []"
  by auto

text \<open>
  C7, as the code has it. Every record that mark normalization emits has a truthy
  \<open>markValue\<close>, which is therefore never the empty string, and an \<open>editDate\<close> that is
  the valid instant read from the raw mark it comes from. A raw mark whose value is falsy
  or whose edit date does not resolve is not pushed: it leaves \<open>allMarks\<close> as it was,
  before sorting and capping.
\<close>

theorem emitted_marks_have_value_and_date:
  assumes "fetchSubjectMarks parse fromDate toDate responseData = Inr out"
  shows "(\<forall>m \<in> set out.
            truthy (markValue m) \<and> markValue m \<noteq> JStr []
            \<and> (\<exists>subject \<in> set (elems (subjectGroups responseData)).
                 \<exists>mk \<in> set (elems (rawMarks subject)).
                   subjectName m = extractSubjectName subject
                   \<and> markValue m = extractMarkValue mk
                   \<and> markEditDate parse mk = Some (editDate m)))
         \<and> (\<not> truthy (extractMarkValue raw) \<or> markEditDate parse raw = None
              \<longrightarrow> pushMark parse sn allMarks raw = allMarks)"
proof -
  have out: "out = take 10 (sort_key (\<lambda>m. - editDate m) (validMarks parse responseData))"
    using assms by (simp add: fetchSubjectMarks_eq split: if_splits)
  have "truthy (markValue m) \<and> markValue m \<noteq> JStr []
        \<and> (\<exists>subject \<in> set (elems (subjectGroups responseData)).
             \<exists>mk \<in> set (elems (rawMarks subject)).
               subjectName m = extractSubjectName subject
               \<and> markValue m = extractMarkValue mk
               \<and> markEditDate parse mk = Some (editDate m))"
    if "m \<in> set out" for m
  proof -
    have "m \<in> set (validMarks parse responseData)"
      using that by (auto simp: out dest: in_set_takeD)
    then obtain subject mk where
      s: "subject \<in> set (elems (subjectGroups responseData))" and
      k: "mk \<in> set (elems (rawMarks subject))" and
      v: "validMark parse (extractSubjectName subject) mk = Some m"
      using validMarks_origin by blast
    from validMark_SomeD [OF v] s k show ?thesis
      using truthy_not_empty_string by blast
  qed
  moreover have "pushMark parse sn allMarks raw = allMarks"
    if "\<not> truthy (extractMarkValue raw) \<or> markEditDate parse raw = None"
    using that by (auto simp: pushMark_validMark validMark_def split: option.splits)
  ultimately show ?thesis by blast
qed

theorem emitted_marks_have_value_and_date_witness:
  "fetchSubjectMarks isoDateOnly 0 0
     (JObj [(''Subjects'',
             JArr [JObj [(''Marks'',
                          JArr [JObj [(''MarkText'', JStr (lit ''1'')),
                                      (''EditDate'', JStr (lit ''2024-03-10''))],
                                JObj [(''EditDate'', JStr (lit ''2024-03-10''))]])]])])
     = Inr [\<lparr>subjectName = JStr unknownSubject, markValue = JStr (lit ''1''),
              editDate = 1710028800000, caption = JStr [], theme = JStr []\<rparr>]
   \<and> truthy (JStr (lit ''1''))
   \<and> \<not> truthy (extractMarkValue (JObj [(''EditDate'', JStr (lit ''2024-03-10''))]))
   \<and> pushMark isoDateOnly JNull [] (JObj [(''EditDate'', JStr (lit ''2024-03-10''))]) = []"
proof -
  have fetch: "fetchSubjectMarks isoDateOnly 0 0
     (JObj [(''Subjects'',
             JArr [JObj [(''Marks'',
                          JArr [JObj [(''MarkText'', JStr (lit ''1'')),
                                      (''EditDate'', JStr (lit ''2024-03-10''))],
                                JObj [(''EditDate'', JStr (lit ''2024-03-10''))]])]])])
     = Inr [\<lparr>subjectName = JStr unknownSubject, markValue = JStr (lit ''1''),
              editDate = 1710028800000, caption = JStr [], theme = JStr []\<rparr>]"
    by (simp add: fetchSubjectMarks_def arrayOf_def pushMark_def markEditFields_def
          extractMarkValue_def extractSubjectName_def nullish_def newDate_def Let_def
          isoDateOnly_sample lit_nonempty)
  have falsy: "\<not> truthy (extractMarkValue (JObj [(''EditDate'', JStr (lit ''2024-03-10''))]))"
    by (simp add: extractMarkValue_def nullish_def)
  show ?thesis
    using emitted_marks_have_value_and_date [OF fetch,
        of "JObj [(''EditDate'', JStr (lit ''2024-03-10''))]" JNull "[]"] fetch falsy
    by simp
qed

text \<open>
  C7 as stated fails on the kind of the value. A \<open>MarkText\<close> that is the number 1 is
  passed on as it is: the emitted record carries a number, not a string.
\<close>

theorem mark_value_not_a_string_counterexample:
  "fetchSubjectMarks isoDateOnly 0 0
     (JObj [(''Subjects'',
             JArr [JObj [(''Marks'',
                          JArr [JObj [(''MarkText'', JNum 1),
                                      (''EditDate'', JStr (lit ''2024-03-10''))]])]])])
     = Inr [\<lparr>subjectName = JStr unknownSubject, markValue = JNum 1,
              editDate = 1710028800000, caption = JStr [], theme = JStr []\<rparr>]
   \<and> \<not> isString (JNum 1)"
  by (simp add: fetchSubjectMarks_def arrayOf_def pushMark_def markEditFields_def
        extractMarkValue_def extractSubjectName_def nullish_def newDate_def Let_def
        isoDateOnly_sample lit_nonempty)

section \<open>The event pipeline\<close>

lemma fetchEvents_eq:
  "fetchEvents parse fromDate toDate responseData =
     (if isArray (rawEvents responseData)
      then Inr (sort_key (\<lambda>e. timeValue (startDate e))
                 (filter (\<lambda>e. isEventWithinRange e fromDate toDate)
                   (map (toEvent parse) (elems (rawEvents responseData)))))
      else Inl TypeError)"
proof -
  have "fetchEvents parse fromDate toDate responseData =
          (case arrayOf (rawEvents responseData) of
             Inl e \<Rightarrow> Inl e
           | Inr es \<Rightarrow>
               Inr (sort_key (\<lambda>e. timeValue (startDate e))
                     (filter (\<lambda>e. isEventWithinRange e fromDate toDate)
                       (map (toEvent parse) es))))"
    by (simp add: fetchEvents_def rawEvents_def Let_def)
  then show ?thesis
    by (simp add: arrayOf_cases)
qed

lemma isEventWithinRange_start: "isEventWithinRange e fromDate toDate \<Longrightarrow> startDate e \<noteq> None"
  by (auto simp: isEventWithinRange_def split: option.splits)

text \<open>
  C8. Every event the event pipeline returns has a start date, resolved from one of the
  start-like fields of the raw event it comes from. A raw event on which no start-like
  field yields a valid instant is not in the output, whatever its end-like fields hold:
  the start date is never taken from anywhere else.
\<close>

theorem event_without_start_excluded:
  assumes "fetchEvents parse fromDate toDate responseData = Inr out"
  shows "(\<forall>e \<in> set out.
            startDate e \<noteq> None
            \<and> (\<exists>raw \<in> set (elems (rawEvents responseData)).
                 e = toEvent parse raw \<and> extractEventStartDate parse raw = startDate e))
         \<and> (extractEventStartDate parse ev = None \<longrightarrow> toEvent parse ev \<notin> set out)"
proof -
  have out: "out = sort_key (\<lambda>e. timeValue (startDate e))
                     (filter (\<lambda>e. isEventWithinRange e fromDate toDate)
                       (map (toEvent parse) (elems (rawEvents responseData))))"
    using assms by (simp add: fetchEvents_eq split: if_splits)
  have start: "startDate e \<noteq> None" if "e \<in> set out" for e
    using that by (auto simp: out dest: isEventWithinRange_start)
  have origin: "\<exists>raw \<in> set (elems (rawEvents responseData)).
                  e = toEvent parse raw \<and> extractEventStartDate parse raw = startDate e"
    if "e \<in> set out" for e
    using that by (auto simp: out toEvent_def)
  have "toEvent parse ev \<notin> set out" if "extractEventStartDate parse ev = None"
  proof
    assume "toEvent parse ev \<in> set out"
    then have "startDate (toEvent parse ev) \<noteq> None" by (rule start)
    then show False using that by (simp add: toEvent_def)
  qed
  with start origin show ?thesis by blast
qed

theorem event_without_start_excluded_witness:
  "fetchEvents isoDateOnly 1710028800000 1710028800000
     (JObj [(''Events'',
             JArr [JObj [(''DateTo'', JStr (lit ''2024-03-10''))],
                   JObj [(''DateFrom'', JStr (lit ''2024-03-10''))]])])
     = Inr [toEvent isoDateOnly (JObj [(''DateFrom'', JStr (lit ''2024-03-10''))])]
   \<and> extractEventStartDate isoDateOnly (JObj [(''DateTo'', JStr (lit ''2024-03-10''))]) = None
   \<and> extractEventEndDate isoDateOnly (JObj [(''DateTo'', JStr (lit ''2024-03-10''))])
       = Some 1710028800000
   \<and> toEvent isoDateOnly (JObj [(''DateTo'', JStr (lit ''2024-03-10''))])
       \<notin> set [toEvent isoDateOnly (JObj [(''DateFrom'', JStr (lit ''2024-03-10''))])]"
proof -
  have noStart:
    "extractEventStartDate isoDateOnly (JObj [(''DateTo'', JStr (lit ''2024-03-10''))]) = None"
    by (simp add: extractEventStartDate_def eventStartFields_def parseDate_def)
  have start:
    "extractEventStartDate isoDateOnly (JObj [(''DateFrom'', JStr (lit ''2024-03-10''))])
       = Some 1710028800000"
    by (simp add: extractEventStartDate_def eventStartFields_def parseDate_def newDate_def
          isoDateOnly_sample lit_nonempty)
  have endD:
    "extractEventEndDate isoDateOnly (JObj [(''DateTo'', JStr (lit ''2024-03-10''))])
       = Some 1710028800000"
    by (simp add: extractEventEndDate_def eventEndFields_def parseDate_def newDate_def
          isoDateOnly_sample lit_nonempty)
  have inRange:
    "isEventWithinRange (toEvent isoDateOnly (JObj [(''DateFrom'', JStr (lit ''2024-03-10''))]))
       1710028800000 1710028800000"
    by (simp add: isEventWithinRange_def toEvent_def start startOfUtcDay_def msPerDay_def)
  have outRange:
    "\<not> isEventWithinRange (toEvent isoDateOnly (JObj [(''DateTo'', JStr (lit ''2024-03-10''))]))
       1710028800000 1710028800000"
    by (simp add: isEventWithinRange_def toEvent_def noStart)
  have fetch: "fetchEvents isoDateOnly 1710028800000 1710028800000
     (JObj [(''Events'',
             JArr [JObj [(''DateTo'', JStr (lit ''2024-03-10''))],
                   JObj [(''DateFrom'', JStr (lit ''2024-03-10''))]])])
     = Inr [toEvent isoDateOnly (JObj [(''DateFrom'', JStr (lit ''2024-03-10''))])]"
    by (simp add: fetchEvents_def arrayOf_def nullish_def inRange outRange)
  show ?thesis
    using event_without_start_excluded [OF fetch,
        of "JObj [(''DateTo'', JStr (lit ''2024-03-10''))]"] fetch noStart endD
    by simp
qed

section \<open>Percent-encoding and the shape of a line\<close>

lemma keyValue_eq:
  "keyValue key value =
     (if wellFormed value then Inr (key @ lit ''='' @ percentEncode value) else Inl URIError)"
  by (simp add: keyValue_def encodeURIComponent_def)

lemma wellFormed_codeUnits: "wellFormed (codeUnits t)"
  using codeUnits [of t] by simp

lemma keyValue_formatted:
  "keyValue key (codeUnits t) = Inr (key @ lit ''='' @ percentEncode (codeUnits t))"
  by (simp add: keyValue_eq wellFormed_codeUnits)

lemma wellFormed_messages: "wellFormed noMarksMessage \<and> wellFormed noHomeworksMessage"
  by (simp add: noMarksMessage_def noHomeworksMessage_def lit_def isHighSurrogate_def
        isLowSurrogate_def)

lemma percentEncode_noMarksMessage:
  "percentEncode noMarksMessage
     = lit ''%C5%BD%C3%A1dn%C3%A9%20nov%C3%A9%20zn%C3%A1mky%20za%20vybran%C3%A9%20obdob%C3%AD.''"
  by (simp add: noMarksMessage_def lit_def isHighSurrogate_def isLowSurrogate_def
        escapeUnit_def isUnreserved_def escapes_def utf8_def hexDigit_def)

lemma percentEncode_noHomeworksMessage:
  "percentEncode noHomeworksMessage
     = lit ''%C5%BD%C3%A1dn%C3%A9%20nadch%C3%A1zej%C3%ADc%C3%AD%20dom%C3%A1c%C3%AD%20%C3%BAkoly.''"
  by (simp add: noHomeworksMessage_def lit_def isHighSurrogate_def isLowSurrogate_def
        escapeUnit_def isUnreserved_def escapes_def utf8_def hexDigit_def)

lemma codeUnits_decimalText: "codeUnits (decimalText i) = showInt i"
  by (rule decimalText.rep_eq)

text \<open>A \<open>map\<close> whose callback builds one \<open>key=value\<close> line per element returns
  when every value can be encoded, and fails with the \<open>URIError\<close> otherwise.\<close>

lemma mapLines_keyValue:
  "mapLines (\<lambda>x index. keyValue (key index) (val x)) i xs =
     (if list_all (\<lambda>x. wellFormed (val x)) xs
      then Inr (map (\<lambda>(index, x). key index @ lit ''='' @ percentEncode (val x)) (enumerate i xs))
      else Inl URIError)"
  by (induction xs arbitrary: i) (simp_all add: keyValue_eq)

lemma homeworksLines_eq:
  assumes "homeworks \<noteq> []"
  shows "homeworksLines env (Items homeworks) generatedAt linePrefix updatedParam =
     (if list_all (\<lambda>hw. wellFormed (truncatedLine (line env generatedAt hw))) (take 10 homeworks)
      then Inr (map (\<lambda>(index, hw). linePrefix @ lit ''_'' @ showNat (index + 1) @ lit ''=''
                       @ percentEncode (truncatedLine (line env generatedAt hw)))
                    (enumerate 0 (take 10 homeworks))
                @ [updatedParam @ lit ''=''
                     @ percentEncode (codeUnits (formatDate env (Some generatedAt)))])
      else Inl URIError)"
proof -
  from assms obtain first others where hs: "homeworks = first # others"
    by (cases homeworks) auto
  have cb: "homeworkLine env generatedAt linePrefix
              = (\<lambda>hw index. keyValue (linePrefix @ lit ''_'' @ showNat (index + 1))
                                (truncatedLine (line env generatedAt hw)))"
    by (intro ext) (simp add: homeworkLine_def)
  have "homeworksLines env (Items homeworks) generatedAt linePrefix updatedParam =
          (case mapLines (homeworkLine env generatedAt linePrefix) 0 (take 10 homeworks) of
             Inl e \<Rightarrow> Inl e
           | Inr lines \<Rightarrow>
               Inr (lines @ [updatedParam @ lit ''=''
                      @ percentEncode (codeUnits (formatDate env (Some generatedAt)))]))"
    by (simp add: homeworksLines_def hs keyValue_formatted split: sum.split)
  then show ?thesis
    by (simp add: cb mapLines_keyValue)
qed

section \<open>The homework line encoder\<close>

text \<open>
  C5. A homework line whose text is longer than 50 code units is cut to its first 49
  and gets the marker \<open>...\<close> appended, 52 code units in all; a line of 50 or fewer is
  left as it is. The cut is made on the raw text, before percent-encoding: line
  \<open>index + 1\<close> of the output is the encoding of the cut text. The encoder returns its
  lines when every cut text among the first ten can be encoded, and fails with a
  \<open>URIError\<close> otherwise, as when the cut falls inside a surrogate pair.
\<close>

theorem homework_line_truncated_over_50:
  "(length l > 50 \<longrightarrow> truncatedLine l = take 49 l @ lit ''...''
                       \<and> length (truncatedLine l) = 52)
   \<and> (length l \<le> 50 \<longrightarrow> truncatedLine l = l)
   \<and> (homeworksLines env (Items homeworks) generatedAt linePrefix updatedParam = Inr lines
        \<and> index < length homeworks \<and> index < 10 \<longrightarrow>
        encodeURIComponent (truncatedLine (line env generatedAt (homeworks ! index)))
          = Inr (percentEncode (truncatedLine (line env generatedAt (homeworks ! index))))
        \<and> lines ! index
          = linePrefix @ lit ''_'' @ showNat (index + 1) @ lit ''=''
              @ percentEncode (truncatedLine (line env generatedAt (homeworks ! index))))
   \<and> (homeworks \<noteq> [] \<longrightarrow>
        (if list_all (\<lambda>hw. wellFormed (truncatedLine (line env generatedAt hw)))
              (take 10 homeworks)
         then \<exists>lines. homeworksLines env (Items homeworks) generatedAt linePrefix updatedParam
                        = Inr lines
         else homeworksLines env (Items homeworks) generatedAt linePrefix updatedParam
                = Inl URIError))"
proof -
  have cut: "length l > 50 \<longrightarrow> truncatedLine l = take 49 l @ lit ''...''
                                \<and> length (truncatedLine l) = 52"
    by (simp add: truncatedLine_def lit_def)
  have keep: "length l \<le> 50 \<longrightarrow> truncatedLine l = l"
    by (simp add: truncatedLine_def)
  have emitted:
    "encodeURIComponent (truncatedLine (line env generatedAt (homeworks ! index)))
       = Inr (percentEncode (truncatedLine (line env generatedAt (homeworks ! index))))
     \<and> lines ! index
       = linePrefix @ lit ''_'' @ showNat (index + 1) @ lit ''=''
           @ percentEncode (truncatedLine (line env generatedAt (homeworks ! index)))"
    if ret: "homeworksLines env (Items homeworks) generatedAt linePrefix updatedParam = Inr lines"
      and i: "index < length homeworks" "index < 10"
  proof -
    have ne: "homeworks \<noteq> []" using i by auto
    have all: "list_all (\<lambda>hw. wellFormed (truncatedLine (line env generatedAt hw)))
                 (take 10 homeworks)"
      using ret homeworksLines_eq [OF ne, of env generatedAt linePrefix updatedParam]
      by (simp split: if_splits)
    have lines: "lines =
            map (\<lambda>(index, hw). linePrefix @ lit ''_'' @ showNat (index + 1) @ lit ''=''
                       @ percentEncode (truncatedLine (line env generatedAt hw)))
                (enumerate 0 (take 10 homeworks))
              @ [updatedParam @ lit ''=''
                   @ percentEncode (codeUnits (formatDate env (Some generatedAt)))]"
      using ret all homeworksLines_eq [OF ne, of env generatedAt linePrefix updatedParam]
      by simp
    have len: "index < length (take 10 homeworks)" using i by simp
    have "take 10 homeworks ! index \<in> set (take 10 homeworks)"
      using len by (rule nth_mem)
    then have wf: "wellFormed (truncatedLine (line env generatedAt (homeworks ! index)))"
      using all i by (simp add: list_all_iff)
    have "lines ! index
            = linePrefix @ lit ''_'' @ showNat (index + 1) @ lit ''=''
                @ percentEncode (truncatedLine (line env generatedAt (homeworks ! index)))"
      using len i by (simp add: lines nth_append nth_enumerate_eq)
    with wf show ?thesis by (simp add: encodeURIComponent_def)
  qed
  have returns:
    "if list_all (\<lambda>hw. wellFormed (truncatedLine (line env generatedAt hw))) (take 10 homeworks)
     then \<exists>lines. homeworksLines env (Items homeworks) generatedAt linePrefix updatedParam
                    = Inr lines
     else homeworksLines env (Items homeworks) generatedAt linePrefix updatedParam
            = Inl URIError"
    if "homeworks \<noteq> []"
    using homeworksLines_eq [OF that, of env generatedAt linePrefix updatedParam] by simp
  from cut keep emitted returns show ?thesis by blast
qed

lemma long_homework_lines:
  "homeworksLines sampleEnv
     (Items [\<lparr>hwSubjectName = JStr (lit ''M''), dueDate = Some 5,
              content = lit ''aaaaaaaaaaaaaaaaaaaaaaaaaaaaaaaaaaaaaaaaaaaaaaaaaaaaaaaaaaaa''\<rparr>])
     3 (lit ''hw'') (lit ''upd'')
   = Inr [lit ''hw_1=%5B2%5D%20M%3A%20aaaaaaaaaaaaaaaaaaaaaaaaaaaaaaaaaaaaaaaaaa...'', lit ''upd=3'']"
  by (simp add: homeworksLines_def homeworkLine_def keyValue_eq line_def truncatedLine_def
        sampleEnv_def timeValue_def codeUnits_decimalText showInt_def lit_def digitChar_def
        isWhiteSpace_def isHighSurrogate_def isLowSurrogate_def escapeUnit_def isUnreserved_def
        escapes_def utf8_def hexDigit_def)

text \<open>A line whose code units 48 and 49 are the two halves of an emoji: the cut keeps the
  first half only, and the encoder throws.\<close>

lemma cut_inside_surrogate_pair_throws:
  "buildHomeworksQueryString sampleEnv
     (Items [\<lparr>hwSubjectName = JStr (lit ''M''), dueDate = Some 5,
              content = lit ''aaaaaaaaaaaaaaaaaaaaaaaaaaaaaaaaaaaaaaaaa'' @ [55357, 56832]\<rparr>])
     3 (lit ''hw'') (lit ''upd'')
   = Inl URIError"
  by (simp add: buildHomeworksQueryString_def homeworksLines_def homeworkLine_def keyValue_eq
        line_def truncatedLine_def
        sampleEnv_def timeValue_def codeUnits_decimalText showInt_def lit_def digitChar_def
        isWhiteSpace_def isHighSurrogate_def isLowSurrogate_def)

theorem homework_line_truncated_over_50_witness:
  "length (replicate 51 (97 :: jchar)) > 50
   \<and> truncatedLine (replicate 51 97) = replicate 49 97 @ lit ''...''
   \<and> length (replicate 50 (97 :: jchar)) \<le> 50
   \<and> truncatedLine (replicate 50 97) = replicate 50 97
   \<and> homeworksLines sampleEnv
        (Items [\<lparr>hwSubjectName = JStr (lit ''M''), dueDate = Some 5,
                 content = lit ''aaaaaaaaaaaaaaaaaaaaaaaaaaaaaaaaaaaaaaaaaaaaaaaaaaaaaaaaaaaa''\<rparr>])
        3 (lit ''hw'') (lit ''upd'')
      = Inr [lit ''hw_1=%5B2%5D%20M%3A%20aaaaaaaaaaaaaaaaaaaaaaaaaaaaaaaaaaaaaaaaaa...'', lit ''upd=3'']
   \<and> (0 :: nat) < length [\<lparr>hwSubjectName = JStr (lit ''M''), dueDate = Some 5,
                            content = lit ''aaaaaaaaaaaaaaaaaaaaaaaaaaaaaaaaaaaaaaaaaaaaaaaaaaaaaaaaaaaa''\<rparr>]
   \<and> [lit ''hw_1=%5B2%5D%20M%3A%20aaaaaaaaaaaaaaaaaaaaaaaaaaaaaaaaaaaaaaaaaa...'', lit ''upd=3''] ! 0
      = lit ''hw'' @ lit ''_'' @ showNat (0 + 1) @ lit ''=''
          @ percentEncode (truncatedLine (line sampleEnv 3
              ([\<lparr>hwSubjectName = JStr (lit ''M''), dueDate = Some 5,
                 content = lit ''aaaaaaaaaaaaaaaaaaaaaaaaaaaaaaaaaaaaaaaaaaaaaaaaaaaaaaaaaaaa''\<rparr>] ! 0)))"
proof -
  let ?hw = "\<lparr>hwSubjectName = JStr (lit ''M''), dueDate = Some 5,
              content = lit ''aaaaaaaaaaaaaaaaaaaaaaaaaaaaaaaaaaaaaaaaaaaaaaaaaaaaaaaaaaaa''\<rparr>"
  have a: "truncatedLine (replicate 51 97) = replicate 49 97 @ lit ''...''"
    using homework_line_truncated_over_50 [of "replicate 51 97"] by simp
  have b: "truncatedLine (replicate 50 97) = replicate 50 97"
    using homework_line_truncated_over_50 [of "replicate 50 97"] by simp
  note inst = homework_line_truncated_over_50
    [of "[]" sampleEnv "[?hw]" 3 "lit ''hw''" "lit ''upd''"
        "[lit ''hw_1=%5B2%5D%20M%3A%20aaaaaaaaaaaaaaaaaaaaaaaaaaaaaaaaaaaaaaaaaa...'', lit ''upd=3'']" 0]
  have n: "(0 :: nat) < length [?hw]" by simp
  have t: "(0 :: nat) < 10" by simp
  have c: "[lit ''hw_1=%5B2%5D%20M%3A%20aaaaaaaaaaaaaaaaaaaaaaaaaaaaaaaaaaaaaaaaaa...'', lit ''upd=3''] ! 0
      = lit ''hw'' @ lit ''_'' @ showNat (0 + 1) @ lit ''=''
          @ percentEncode (truncatedLine (line sampleEnv 3 ([?hw] ! 0)))"
    by (rule inst [THEN conjunct2, THEN conjunct2, THEN conjunct1, THEN mp,
          OF conjI [OF long_homework_lines conjI [OF n t]], THEN conjunct2])
  have l51: "length (replicate 51 (97 :: jchar)) > 50" by simp
  have l50: "length (replicate 50 (97 :: jchar)) \<le> 50" by simp
  show ?thesis
    by (intro conjI l51 a l50 b long_homework_lines n c)
qed

section \<open>The metadata line\<close>

lemma markLine_returns:
  "(\<exists>l. markLine env linePrefix m index = Inr l) \<longleftrightarrow> markEncodable env m"
  by (cases "subjectName m") (simp_all add: markLine_def markEncodable_def keyValue_eq)

lemma mapLines_returns:
  "(\<exists>ls. mapLines f index xs = Inr ls) \<longleftrightarrow> (\<forall>j < length xs. \<exists>l. f (xs ! j) (index + j) = Inr l)"
proof (induction xs arbitrary: index)
  case Nil
  show ?case by simp
next
  case (Cons x xs)
  have "(\<exists>ls. mapLines f index (x # xs) = Inr ls)
        \<longleftrightarrow> (\<exists>l. f x index = Inr l) \<and> (\<exists>ls. mapLines f (Suc index) xs = Inr ls)"
    by (auto split: sum.splits)
  also have "\<dots> \<longleftrightarrow> (\<exists>l. f x index = Inr l)
                    \<and> (\<forall>j < length xs. \<exists>l. f (xs ! j) (Suc index + j) = Inr l)"
    by (simp only: Cons.IH)
  also have "\<dots> \<longleftrightarrow> (\<forall>j < length (x # xs). \<exists>l. f ((x # xs) ! j) (index + j) = Inr l)"
    by (auto simp: less_Suc_eq_0_disj)
  finally show ?case .
qed

lemma mapLines_markLine:
  "(\<exists>ls. mapLines (markLine env linePrefix) index ms = Inr ls)
   \<longleftrightarrow> list_all (markEncodable env) ms"
  by (simp add: mapLines_returns markLine_returns list_all_length)

lemma marksLines_last:
  assumes "marksLines env (Items (first # others)) linePrefix updatedParam = Inr lines"
  shows "last lines = updatedParam @ lit ''=''
           @ percentEncode (codeUnits (formatDate env (Some (editDate first))))"
  using assms
  by (auto simp: marksLines_def Let_def keyValue_formatted split: sum.splits)

lemma marksLines_returns:
  "(\<exists>lines. marksLines env (Items (first # others)) linePrefix updatedParam = Inr lines)
   \<longleftrightarrow> list_all (markEncodable env) (first # others)"
proof -
  have "(\<exists>lines. marksLines env (Items (first # others)) linePrefix updatedParam = Inr lines)
        \<longleftrightarrow> (\<exists>ls. mapLines (markLine env linePrefix) 0 (first # others) = Inr ls)"
    by (auto simp: marksLines_def Let_def keyValue_formatted split: sum.splits)
  then show ?thesis
    by (simp only: mapLines_markLine)
qed

lemma sorted_desc_hd_Max:
  assumes "sorted_wrt (\<lambda>a b. editDate a \<ge> editDate (b::mark)) (first # others)"
  shows "editDate first = Max (editDate ` set (first # others))"
proof -
  have "\<forall>m \<in> set (first # others). editDate m \<le> editDate first"
    using assms by auto
  then have "Max (editDate ` set (first # others)) = editDate first"
    by (intro Max_eqI) auto
  then show ?thesis by simp
qed

text \<open>
  C6. In the mark pipeline the records reach the encoder sorted, newest first, so the
  timestamp of the trailing line, the edit date of the first record, is the largest edit
  date among the encoded marks. In the homework encoder the timestamp of the trailing
  line of a non-empty list is the generation time it was given. Either encoder produces
  its lines, and with them the trailing line, exactly when every record can be encoded:
  for a mark, a subject name that is a string and a line text without lone surrogates;
  for a homework among the first ten, a cut line without lone surrogates.
\<close>

theorem metadata_line_timestamp:
  "(fetchSubjectMarks parse fromDate toDate responseData = Inr marks \<and> marks \<noteq> []
      \<longrightarrow> ((\<exists>lines. marksLines env (Items marks) linePrefix updatedParam = Inr lines)
             \<longleftrightarrow> list_all (markEncodable env) marks)
          \<and> (\<forall>lines. marksLines env (Items marks) linePrefix updatedParam = Inr lines
                \<longrightarrow> last lines = updatedParam @ lit ''=''
                      @ percentEncode
                          (codeUnits (formatDate env (Some (Max (editDate ` set marks)))))))
   \<and> (homeworks \<noteq> []
      \<longrightarrow> ((\<exists>lines. homeworksLines env (Items homeworks) generatedAt hwLinePrefix hwUpdatedParam
                       = Inr lines)
             \<longleftrightarrow> list_all (\<lambda>hw. wellFormed (truncatedLine (line env generatedAt hw)))
                   (take 10 homeworks))
          \<and> (\<forall>lines. homeworksLines env (Items homeworks) generatedAt hwLinePrefix hwUpdatedParam
                       = Inr lines
                \<longrightarrow> last lines = hwUpdatedParam @ lit ''=''
                      @ percentEncode (codeUnits (formatDate env (Some generatedAt)))))"
proof -
  have marksPart:
    "((\<exists>lines. marksLines env (Items marks) linePrefix updatedParam = Inr lines)
        \<longleftrightarrow> list_all (markEncodable env) marks)
     \<and> (\<forall>lines. marksLines env (Items marks) linePrefix updatedParam = Inr lines
           \<longrightarrow> last lines = updatedParam @ lit ''=''
                 @ percentEncode
                     (codeUnits (formatDate env (Some (Max (editDate ` set marks))))))"
    if fetch: "fetchSubjectMarks parse fromDate toDate responseData = Inr marks"
      and ne: "marks \<noteq> []"
  proof -
    have "marks = take 10 (sort_key (\<lambda>m. - editDate m) (validMarks parse responseData))"
      using fetch by (simp add: fetchSubjectMarks_eq split: if_splits)
    then have sorted: "sorted_wrt (\<lambda>a b. editDate a \<ge> editDate b) marks"
      using sorted_desc_sort_key by (simp add: sorted_wrt_take)
    from ne obtain first others where ms: "marks = first # others"
      by (cases marks) auto
    have newest: "editDate first = Max (editDate ` set (first # others))"
      using sorted unfolding ms by (rule sorted_desc_hd_Max)
    have last: "last lines = updatedParam @ lit ''=''
                  @ percentEncode
                      (codeUnits (formatDate env (Some (Max (editDate ` set (first # others))))))"
      if "marksLines env (Items (first # others)) linePrefix updatedParam = Inr lines" for lines
      using marksLines_last [OF that] by (simp only: newest)
    show ?thesis
      unfolding ms using marksLines_returns [of env first others linePrefix updatedParam] last
      by blast
  qed
  have hwPart:
    "((\<exists>lines. homeworksLines env (Items homeworks) generatedAt hwLinePrefix hwUpdatedParam
                 = Inr lines)
        \<longleftrightarrow> list_all (\<lambda>hw. wellFormed (truncatedLine (line env generatedAt hw)))
              (take 10 homeworks))
     \<and> (\<forall>lines. homeworksLines env (Items homeworks) generatedAt hwLinePrefix hwUpdatedParam
                  = Inr lines
           \<longrightarrow> last lines = hwUpdatedParam @ lit ''=''
                 @ percentEncode (codeUnits (formatDate env (Some generatedAt))))"
    if ne: "homeworks \<noteq> []"
    using homeworksLines_eq [OF ne, of env generatedAt hwLinePrefix hwUpdatedParam]
    by (auto split: if_splits)
  from marksPart hwPart show ?thesis by blast
qed
theorem metadata_line_timestamp_witness:
  "fetchSubjectMarks isoDateOnly 0 0
     (JObj [(''Subjects'',
             JArr [JObj [(''Name'', JStr (lit ''M'')),
                         (''Marks'', JArr [sampleMark 5, sampleMark 9])]])])
     = Inr [sampleRecord (JStr (lit ''M'')) 9, sampleRecord (JStr (lit ''M'')) 5]
   \<and> marksLines sampleEnv
        (Items [sampleRecord (JStr (lit ''M'')) 9, sampleRecord (JStr (lit ''M'')) 5])
        (lit ''g'') (lit ''upd'')
     = Inr [lit ''g_1=M%3A%201%20(9)'', lit ''g_2=M%3A%201%20(5)'', lit ''upd=9'']
   \<and> list_all (markEncodable sampleEnv)
        [sampleRecord (JStr (lit ''M'')) 9, sampleRecord (JStr (lit ''M'')) 5]
   \<and> last [lit ''g_1=M%3A%201%20(9)'', lit ''g_2=M%3A%201%20(5)'', lit ''upd=9'']
     = lit ''upd'' @ lit ''='' @ percentEncode (codeUnits (formatDate sampleEnv (Some (Max (editDate `
            set [sampleRecord (JStr (lit ''M'')) 9, sampleRecord (JStr (lit ''M'')) 5])))))
   \<and> homeworksLines sampleEnv
        (Items [\<lparr>hwSubjectName = JStr (lit ''M''), dueDate = Some 5, content = lit ''p. 7''\<rparr>])
        3 (lit ''hw'') (lit ''upd'')
     = Inr [lit ''hw_1=%5B2%5D%20M%3A%20p.%207%20%E2%80%93%205'', lit ''upd=3'']
   \<and> last [lit ''hw_1=%5B2%5D%20M%3A%20p.%207%20%E2%80%93%205'', lit ''upd=3'']
     = lit ''upd'' @ lit ''='' @ percentEncode (codeUnits (formatDate sampleEnv (Some 3)))"
proof -
  let ?m9 = "sampleRecord (JStr (lit ''M'')) 9"
  let ?m5 = "sampleRecord (JStr (lit ''M'')) 5"
  let ?hw = "\<lparr>hwSubjectName = JStr (lit ''M''), dueDate = Some 5, content = lit ''p. 7''\<rparr>"
  let ?P = "JObj [(''Subjects'',
             JArr [JObj [(''Name'', JStr (lit ''M'')),
                         (''Marks'', JArr [sampleMark 5, sampleMark 9])]])]"
  have fetch: "fetchSubjectMarks isoDateOnly 0 0 ?P = Inr [?m9, ?m5]"
    by (simp add: fetchSubjectMarks_def arrayOf_def pushMark_def markEditFields_def
          extractMarkValue_def extractSubjectName_def nullish_def newDate_def Let_def
          sampleMark_def sampleRecord_def timeClip_def lit_nonempty)
  have lines: "marksLines sampleEnv (Items [?m9, ?m5]) (lit ''g'') (lit ''upd'')
     = Inr [lit ''g_1=M%3A%201%20(9)'', lit ''g_2=M%3A%201%20(5)'', lit ''upd=9'']"
    by (simp add: marksLines_def markLine_def markText_def keyValue_eq sampleRecord_def
          sampleEnv_def timeValue_def codeUnits_decimalText showInt_def lit_def
          digitChar_def jsTrim_def isWhiteSpace_def isHighSurrogate_def isLowSurrogate_def
          escapeUnit_def isUnreserved_def escapes_def utf8_def hexDigit_def)
  have hlines: "homeworksLines sampleEnv (Items [?hw]) 3 (lit ''hw'') (lit ''upd'')
     = Inr [lit ''hw_1=%5B2%5D%20M%3A%20p.%207%20%E2%80%93%205'', lit ''upd=3'']"
    by (simp add: homeworksLines_def homeworkLine_def keyValue_eq line_def truncatedLine_def
          sampleEnv_def timeValue_def codeUnits_decimalText showInt_def lit_def digitChar_def
          isWhiteSpace_def isHighSurrogate_def isLowSurrogate_def escapeUnit_def
          isUnreserved_def escapes_def utf8_def hexDigit_def)
  have ne: "[?m9, ?m5] \<noteq> []" by simp
  have hne: "[?hw] \<noteq> []" by simp
  note inst = metadata_line_timestamp [of isoDateOnly 0 0 ?P "[?m9, ?m5]" sampleEnv
      "lit ''g''" "lit ''upd''" "[?hw]" 3 "lit ''hw''" "lit ''upd''"]
  note marksInst = inst [THEN conjunct1, THEN mp, OF conjI [OF fetch ne]]
  note hwInst = inst [THEN conjunct2, THEN mp, OF hne]
  have ex: "\<exists>ls. marksLines sampleEnv (Items [?m9, ?m5]) (lit ''g'') (lit ''upd'') = Inr ls"
    by (rule exI) (rule lines)
  have enc: "list_all (markEncodable sampleEnv) [?m9, ?m5]"
    by (rule iffD1 [OF marksInst [THEN conjunct1] ex])
  have m: "last [lit ''g_1=M%3A%201%20(9)'', lit ''g_2=M%3A%201%20(5)'', lit ''upd=9'']
     = lit ''upd'' @ lit ''='' @ percentEncode (codeUnits (formatDate sampleEnv (Some (Max (editDate `
            set [?m9, ?m5])))))"
    by (rule marksInst [THEN conjunct2, THEN spec, THEN mp, OF lines])
  have h: "last [lit ''hw_1=%5B2%5D%20M%3A%20p.%207%20%E2%80%93%205'', lit ''upd=3'']
     = lit ''upd'' @ lit ''='' @ percentEncode (codeUnits (formatDate sampleEnv (Some 3)))"
    by (rule hwInst [THEN conjunct2, THEN spec, THEN mp, OF hlines])
  show ?thesis
    by (intro conjI fetch lines enc m hlines h)
qed

section \<open>Empty payloads and arguments that are not arrays\<close>

lemma marksLines_no_items:
  "marksLines env (Items []) linePrefix updatedParam
     = Inr [linePrefix @ lit ''_1='' @ percentEncode noMarksMessage,
            updatedParam @ lit ''=''
              @ percentEncode (codeUnits (formatDate env (Some (currentTime env))))]
   \<and> marksLines env (NotArray v) linePrefix updatedParam
     = marksLines env (Items []) linePrefix updatedParam"
  by (simp add: marksLines_def keyValue_eq wellFormed_codeUnits wellFormed_messages lit_def)

lemma homeworksLines_no_items:
  "homeworksLines env (Items []) generatedAt linePrefix updatedParam
     = Inr [linePrefix @ lit ''_1='' @ percentEncode noHomeworksMessage,
            updatedParam @ lit ''=''
              @ percentEncode (codeUnits (formatDate env (Some generatedAt)))]
   \<and> homeworksLines env (NotArray v) generatedAt linePrefix updatedParam
     = homeworksLines env (Items []) generatedAt linePrefix updatedParam"
  by (simp add: homeworksLines_def keyValue_eq wellFormed_codeUnits wellFormed_messages lit_def)

text \<open>
  C9. When the container of a payload is absent (or null) under both of its names, the
  fetch stage yields the empty list instead of failing, and the sync script turns it into
  the two lines of the "no items" encoding, joined by \<open>&\<close>: line 1 with the
  percent-encoded message, and the update line with the percent-encoded formatted time.
  This holds for marks and for homeworks; for events, whose encoder is not among the
  sources, the fetch stage yields the empty list.
\<close>

theorem absent_container_encodes_no_items:
  "(nullish (getField responseData ''Subjects'') \<and> nullish (getField responseData ''subjects'')
      \<longrightarrow> fetchSubjectMarks parse fromDate now responseData = Inr []
          \<and> marksSync env parse linePrefix updatedParam fromDate now responseData
            = Inr (linePrefix @ lit ''_1='' @ percentEncode noMarksMessage @ lit ''&''
                     @ updatedParam @ lit ''=''
                     @ percentEncode (codeUnits (formatDate env (Some (currentTime env))))))
   \<and> (nullish (getField responseData ''Homeworks'') \<and> nullish (getField responseData ''homeworks'')
      \<longrightarrow> fetchHomeworks parse (startOfUtcDay now) toDate responseData = Inr []
          \<and> homeworksSync env parse linePrefix updatedParam now toDate responseData
            = Inr (linePrefix @ lit ''_1='' @ percentEncode noHomeworksMessage @ lit ''&''
                     @ updatedParam @ lit ''=''
                     @ percentEncode (codeUnits (formatDate env (Some now)))))
   \<and> (nullish (getField responseData ''Events'') \<and> nullish (getField responseData ''events'')
      \<longrightarrow> fetchEvents parse fromDate toDate responseData = Inr [])"
proof -
  have marks: "fetchSubjectMarks parse fromDate now responseData = Inr []"
    if "nullish (getField responseData ''Subjects'')" "nullish (getField responseData ''subjects'')"
    using that by (simp add: fetchSubjectMarks_def arrayOf_def)
  have hws: "fetchHomeworks parse (startOfUtcDay now) toDate responseData = Inr []"
    if "nullish (getField responseData ''Homeworks'')" "nullish (getField responseData ''homeworks'')"
    using that by (simp add: fetchHomeworks_def arrayOf_def)
  have evs: "fetchEvents parse fromDate toDate responseData = Inr []"
    if "nullish (getField responseData ''Events'')" "nullish (getField responseData ''events'')"
    using that by (simp add: fetchEvents_def arrayOf_def)
  have encM: "buildMarksQueryString env (Items []) linePrefix updatedParam
      = Inr (linePrefix @ lit ''_1='' @ percentEncode noMarksMessage @ lit ''&''
               @ updatedParam @ lit ''=''
               @ percentEncode (codeUnits (formatDate env (Some (currentTime env)))))"
    by (simp add: buildMarksQueryString_def marksLines_no_items)
  have encH: "buildHomeworksQueryString env (Items []) now linePrefix updatedParam
      = Inr (linePrefix @ lit ''_1='' @ percentEncode noHomeworksMessage @ lit ''&''
          @ updatedParam @ lit ''='' @ percentEncode (codeUnits (formatDate env (Some now))))"
    by (simp add: buildHomeworksQueryString_def homeworksLines_no_items)
  show ?thesis
    using marks hws evs by (simp add: marksSync_def homeworksSync_def encM encH)
qed

theorem absent_container_encodes_no_items_witness:
  "nullish (getField (JObj []) ''Subjects'') \<and> nullish (getField (JObj []) ''subjects'')
   \<and> nullish (getField (JObj []) ''Homeworks'') \<and> nullish (getField (JObj []) ''homeworks'')
   \<and> nullish (getField (JObj []) ''Events'') \<and> nullish (getField (JObj []) ''events'')
   \<and> marksSync sampleEnv isoDateOnly (lit ''grades_line'') (lit ''grades_updated'') 0 7 (JObj [])
       = Inr (lit ''grades_line_1=%C5%BD%C3%A1dn%C3%A9%20nov%C3%A9%20zn%C3%A1mky%20za%20vybran%C3%A9%20obdob%C3%AD.&grades_updated=0'')
   \<and> homeworksSync sampleEnv isoDateOnly (lit ''homeworks_line'') (lit ''homeworks_updated'') 7 9
         (JObj [])
       = Inr (lit ''homeworks_line_1=%C5%BD%C3%A1dn%C3%A9%20nadch%C3%A1zej%C3%ADc%C3%AD%20dom%C3%A1c%C3%AD%20%C3%BAkoly.&homeworks_updated=7'')
   \<and> fetchEvents isoDateOnly 0 9 (JObj []) = Inr []"
proof -
  have absent: "nullish (getField (JObj []) k)" for k
    by (simp add: nullish_def)
  have stamps:
    "percentEncode (codeUnits (formatDate sampleEnv (Some (currentTime sampleEnv)))) = lit ''0''
     \<and> percentEncode (codeUnits (formatDate sampleEnv (Some 7))) = lit ''7''"
    by (simp add: sampleEnv_def timeValue_def codeUnits_decimalText showInt_def lit_def
          digitChar_def escapeUnit_def isUnreserved_def)
  have m: "marksSync sampleEnv isoDateOnly (lit ''grades_line'') (lit ''grades_updated'') 0 7 (JObj [])
       = Inr (lit ''grades_line_1=%C5%BD%C3%A1dn%C3%A9%20nov%C3%A9%20zn%C3%A1mky%20za%20vybran%C3%A9%20obdob%C3%AD.&grades_updated=0'')"
    using absent_container_encodes_no_items
        [of "JObj []" isoDateOnly 0 7 sampleEnv "lit ''grades_line''" "lit ''grades_updated''" 9,
         THEN conjunct1] absent
    by (simp add: stamps percentEncode_noMarksMessage) (simp add: lit_def)
  have h: "homeworksSync sampleEnv isoDateOnly (lit ''homeworks_line'') (lit ''homeworks_updated'')
         7 9 (JObj [])
       = Inr (lit ''homeworks_line_1=%C5%BD%C3%A1dn%C3%A9%20nadch%C3%A1zej%C3%ADc%C3%AD%20dom%C3%A1c%C3%AD%20%C3%BAkoly.&homeworks_updated=7'')"
    using absent_container_encodes_no_items
        [of "JObj []" isoDateOnly 0 7 sampleEnv "lit ''homeworks_line''"
            "lit ''homeworks_updated''" 9, THEN conjunct2, THEN conjunct1] absent
    by (simp add: stamps percentEncode_noHomeworksMessage) (simp add: lit_def)
  have e: "fetchEvents isoDateOnly 0 9 (JObj []) = Inr []"
    using absent_container_encodes_no_items
        [of "JObj []" isoDateOnly 0 7 sampleEnv "lit ''grades_line''" "lit ''grades_updated''" 9,
         THEN conjunct2, THEN conjunct2] absent by simp
  show ?thesis
    by (intro conjI absent m h e)
qed

text \<open>
  C10. Given anything that is not an array, both line encoders return what they return
  for the empty array: the two lines of the "no items" encoding. Neither fails on such an
  argument: the message and the formatted time are text that can always be encoded.
\<close>

theorem encoders_total_on_non_arrays:
  "buildMarksQueryString env (NotArray v) linePrefix updatedParam
     = buildMarksQueryString env (Items []) linePrefix updatedParam
   \<and> buildMarksQueryString env (NotArray v) linePrefix updatedParam
     = Inr (linePrefix @ lit ''_1='' @ percentEncode noMarksMessage @ lit ''&''
              @ updatedParam @ lit ''=''
              @ percentEncode (codeUnits (formatDate env (Some (currentTime env)))))
   \<and> buildHomeworksQueryString env (NotArray v) generatedAt linePrefix updatedParam
     = buildHomeworksQueryString env (Items []) generatedAt linePrefix updatedParam
   \<and> buildHomeworksQueryString env (NotArray v) generatedAt linePrefix updatedParam
     = Inr (linePrefix @ lit ''_1='' @ percentEncode noHomeworksMessage @ lit ''&''
              @ updatedParam @ lit ''=''
              @ percentEncode (codeUnits (formatDate env (Some generatedAt))))"
  by (simp add: buildMarksQueryString_def buildHomeworksQueryString_def
        marksLines_no_items homeworksLines_no_items)
end
